theory Spec2Isabelle
  imports Complex_Main "HOL-Library.AList"
begin

section \<open>Floating-point cells\<close>

text \<open>
  The analyser works on pandas columns of float64 values. A float64 is modelled as an exact
  real number or one of the three special values; rounding, overflow and the sign of zero
  are not modelled. \<open>NaN\<close> is pandas' missing value.
\<close>

datatype f64 = NaN | NInf | Fin real | PInf

text \<open>IEEE comparison: every comparison with \<open>NaN\<close> is false.\<close>

fun num_le :: "f64 \<Rightarrow> f64 \<Rightarrow> bool" where
  "num_le NaN y = False"
| "num_le x NaN = False"
| "num_le NInf y = True"
| "num_le x PInf = True"
| "num_le (Fin a) (Fin b) = (a \<le> b)"
| "num_le (Fin a) NInf = False"
| "num_le PInf y = False"

fun num_eq :: "f64 \<Rightarrow> f64 \<Rightarrow> bool" where
  "num_eq NaN y = False"
| "num_eq x NaN = False"
| "num_eq x y = (x = y)"

fun num_neg :: "f64 \<Rightarrow> f64" where
  "num_neg NaN = NaN"
| "num_neg NInf = PInf"
| "num_neg (Fin a) = Fin (- a)"
| "num_neg PInf = NInf"

fun num_add :: "f64 \<Rightarrow> f64 \<Rightarrow> f64" where
  "num_add NaN y = NaN"
| "num_add x NaN = NaN"
| "num_add (Fin a) (Fin b) = Fin (a + b)"
| "num_add PInf NInf = NaN"
| "num_add NInf PInf = NaN"
| "num_add PInf y = PInf"
| "num_add x PInf = PInf"
| "num_add NInf y = NInf"
| "num_add x NInf = NInf"

definition num_sub :: "f64 \<Rightarrow> f64 \<Rightarrow> f64" where
  "num_sub x y = num_add x (num_neg y)"

text \<open>An infinity with the sign of a real factor; \<open>inf * 0\<close> is \<open>NaN\<close>.\<close>

definition inf_signed :: "real \<Rightarrow> f64" where
  "inf_signed r = (if r = 0 then NaN else if 0 < r then PInf else NInf)"

fun num_mul :: "f64 \<Rightarrow> f64 \<Rightarrow> f64" where
  "num_mul NaN y = NaN"
| "num_mul x NaN = NaN"
| "num_mul (Fin a) (Fin b) = Fin (a * b)"
| "num_mul PInf (Fin b) = inf_signed b"
| "num_mul NInf (Fin b) = inf_signed (- b)"
| "num_mul (Fin a) PInf = inf_signed a"
| "num_mul (Fin a) NInf = inf_signed (- a)"
| "num_mul PInf PInf = PInf"
| "num_mul NInf NInf = PInf"
| "num_mul PInf NInf = NInf"
| "num_mul NInf PInf = NInf"

text \<open>
  Division as numpy performs it on float64 arrays: a division by zero raises nothing and
  yields an infinity (\<open>NaN\<close> for \<open>0 / 0\<close>).
\<close>

fun num_div :: "f64 \<Rightarrow> f64 \<Rightarrow> f64" where
  "num_div NaN y = NaN"
| "num_div x NaN = NaN"
| "num_div (Fin a) (Fin b) = (if b = 0 then inf_signed a else Fin (a / b))"
| "num_div (Fin a) y = Fin 0"
| "num_div PInf (Fin b) = (if 0 \<le> b then PInf else NInf)"
| "num_div NInf (Fin b) = (if 0 \<le> b then NInf else PInf)"
| "num_div x y = NaN"

section \<open>Series statistics\<close>

text \<open>Insertion sort of the values that are not \<open>NaN\<close>, ascending.\<close>

fun insert_sorted :: "f64 \<Rightarrow> f64 list \<Rightarrow> f64 list" where
  "insert_sorted x [] = [x]"
| "insert_sorted x (y # ys) = (if num_le x y then x # y # ys else y # insert_sorted x ys)"

fun sort_num :: "f64 list \<Rightarrow> f64 list" where
  "sort_num [] = []"
| "sort_num (x # xs) = insert_sorted x (sort_num xs)"

definition dropna :: "f64 list \<Rightarrow> f64 list" where
  "dropna xs = filter (\<lambda>x. x \<noteq> NaN) xs"

text \<open>
  The linear interpolation of numpy (\<open>_lerp\<close>): \<open>a + (b - a) * t\<close>, computed from
  the upper end when \<open>t \<ge> 0.5\<close>.
\<close>

definition lerp :: "f64 \<Rightarrow> f64 \<Rightarrow> real \<Rightarrow> f64" where
  "lerp a b t =
     (if 1 / 2 \<le> t then num_sub b (num_mul (num_sub b a) (Fin (1 - t)))
      else num_add a (num_mul (num_sub b a) (Fin t)))"

text \<open>
  \<open>Series.quantile(q)\<close> with the default linear interpolation: missing values are
  skipped, the position \<open>q * (n - 1)\<close> in the sorted values is interpolated between
  its two neighbours, and a series with no value gives \<open>NaN\<close>. The source calls it
  with \<open>q = 0.01\<close> and \<open>q = 0.99\<close> only. The interpolation is exact here; in
  float64 the bound is rounded, which can change the fate of a value that lies on it.
\<close>

definition quantile :: "f64 list \<Rightarrow> real \<Rightarrow> f64" where
  "quantile xs q =
     (let vs = sort_num (dropna xs); n = length vs in
      if n = 0 then NaN
      else
        let pos = real (n - 1) * q;
            lo = min (nat \<lfloor>pos\<rfloor>) (n - 1);
            hi = min (lo + 1) (n - 1)
        in lerp (vs ! lo) (vs ! hi) (pos - real lo))"

text \<open>\<open>Series.mean()\<close> and \<open>Series.median()\<close>: missing values are skipped.\<close>

definition mean :: "f64 list \<Rightarrow> f64" where
  "mean xs =
     (let vs = dropna xs in
      if vs = [] then NaN else num_div (foldl num_add (Fin 0) vs) (Fin (real (length vs))))"

definition median :: "f64 list \<Rightarrow> f64" where
  "median xs =
     (let vs = sort_num (dropna xs); n = length vs in
      if n = 0 then NaN
      else if odd n then vs ! (n div 2)
      else num_div (num_add (vs ! (n div 2 - 1)) (vs ! (n div 2))) (Fin 2))"

section \<open>Data frames\<close>

text \<open>
  A cell of an object column is a number (a missing cell is \<open>CNum NaN\<close>: None and
  NaN are not told apart, as \<open>isna\<close> does not) or a string. A column is a float64
  series or an object series. A frame is its index (the row labels, which a row selection
  keeps) and its columns in order, every column as long as the index.
\<close>

datatype cell = CNum f64 | CStr string

datatype column = Floats "f64 list" | Objects "cell list"

record frame =
  index :: "nat list"
  columns :: "(string \<times> column) list"

datatype py_error = KeyError string | TypeError | AttributeError

definition get_col :: "frame \<Rightarrow> string \<Rightarrow> column option" where
  "get_col df name = map_of (columns df) name"

definition set_col :: "string \<Rightarrow> column \<Rightarrow> frame \<Rightarrow> frame" where
  "set_col name c df = df\<lparr>columns := AList.update name c (columns df)\<rparr>"

fun cell_isna :: "cell \<Rightarrow> bool" where
  "cell_isna (CNum x) = (x = NaN)"
| "cell_isna (CStr s) = False"

fun isna_all :: "column \<Rightarrow> bool" where
  "isna_all (Floats xs) = list_all (\<lambda>x. x = NaN) xs"
| "isna_all (Objects cs) = list_all cell_isna cs"

text \<open>
  The numeric reading of a column, for arithmetic, comparisons and statistics: an object
  column that holds a string raises TypeError.
\<close>

fun cell_num :: "cell \<Rightarrow> f64 option" where
  "cell_num (CNum x) = Some x"
| "cell_num (CStr s) = None"

fun as_floats :: "column \<Rightarrow> py_error + f64 list" where
  "as_floats (Floats xs) = Inr xs"
| "as_floats (Objects cs) =
     (case those (map cell_num cs) of None \<Rightarrow> Inl TypeError | Some xs \<Rightarrow> Inr xs)"

text \<open>
  \<open>pd.to_numeric(col, errors='coerce')\<close>: a string is parsed as a number, and becomes
  \<open>NaN\<close> when it is none. The parser of numeric strings is pandas' own, taken as the
  parameter \<open>parse\<close>.
\<close>

fun coerce_cell :: "(string \<Rightarrow> f64) \<Rightarrow> cell \<Rightarrow> f64" where
  "coerce_cell parse (CNum x) = x"
| "coerce_cell parse (CStr s) = parse s"

fun to_numeric :: "(string \<Rightarrow> f64) \<Rightarrow> column \<Rightarrow> column" where
  "to_numeric parse (Floats xs) = Floats xs"
| "to_numeric parse (Objects cs) = Floats (map (coerce_cell parse) cs)"

fun col_length :: "column \<Rightarrow> nat" where
  "col_length (Floats xs) = length xs"
| "col_length (Objects cs) = length cs"

text \<open>A frame is well formed when every column is as long as the index.\<close>

definition wf_frame :: "frame \<Rightarrow> bool" where
  "wf_frame df = list_all (\<lambda>(name, c). col_length c = length (index df)) (columns df)"

text \<open>Row selection by a boolean mask, \<open>df[mask]\<close>: the labels of the kept rows stay.\<close>

definition select :: "bool list \<Rightarrow> 'a list \<Rightarrow> 'a list" where
  "select keep xs = map fst (filter snd (zip xs keep))"

fun select_col :: "bool list \<Rightarrow> column \<Rightarrow> column" where
  "select_col keep (Floats xs) = Floats (select keep xs)"
| "select_col keep (Objects cs) = Objects (select keep cs)"

definition select_rows :: "bool list \<Rightarrow> frame \<Rightarrow> frame" where
  "select_rows keep df =
     \<lparr>index = select keep (index df),
      columns = map (\<lambda>(name, c). (name, select_col keep c)) (columns df)\<rparr>"

section \<open>The analyser: \<open>_clean_dataframe\<close>\<close>

text \<open>
  Line 97: \<open>df.get('preco_atual', df.get('preco_inicial'))\<close> looks a column up, not a
  cell: the whole column \<open>preco_atual\<close> when the frame has one, otherwise the column
  \<open>preco_inicial\<close>, otherwise None, which the assignment broadcasts to every row.
\<close>

definition select_preco :: "frame \<Rightarrow> frame" where
  "select_preco df =
     set_col ''preco''
       (case get_col df ''preco_atual'' of
          Some c \<Rightarrow> c
        | None \<Rightarrow>
            (case get_col df ''preco_inicial'' of
               Some c \<Rightarrow> c
             | None \<Rightarrow> Objects (replicate (length (index df)) (CNum NaN))))
       df"

definition numeric_columns :: "string list" where
  "numeric_columns = [''preco'', ''area'', ''quartos'', ''banheiros'', ''vagas'']"

definition coerce_columns :: "(string \<Rightarrow> f64) \<Rightarrow> frame \<Rightarrow> frame" where
  "coerce_columns parse df =
     foldl (\<lambda>d name. case get_col d name of
                        None \<Rightarrow> d
                      | Some c \<Rightarrow> set_col name (to_numeric parse c) d)
       df numeric_columns"

definition series_div :: "column \<Rightarrow> column \<Rightarrow> py_error + column" where
  "series_div p a =
     (case as_floats p of
        Inl e \<Rightarrow> Inl e
      | Inr xs \<Rightarrow>
          (case as_floats a of
             Inl e \<Rightarrow> Inl e
           | Inr ys \<Rightarrow> Inr (Floats (map (\<lambda>(x, y). num_div x y) (zip xs ys)))))"

text \<open>Lines 106 and 107. A column the frame lacks raises KeyError.\<close>

definition derive_preco_m2 :: "frame \<Rightarrow> py_error + frame" where
  "derive_preco_m2 df =
     (if (case get_col df ''preco_m2'' of None \<Rightarrow> True | Some c \<Rightarrow> isna_all c) then
        (case get_col df ''preco'' of
           None \<Rightarrow> Inl (KeyError ''preco'')
         | Some p \<Rightarrow>
             (case get_col df ''area'' of
                None \<Rightarrow> Inl (KeyError ''area'')
              | Some a \<Rightarrow>
                  (case series_div p a of
                     Inl e \<Rightarrow> Inl e
                   | Inr c \<Rightarrow> Inr (set_col ''preco_m2'' c df))))
      else Inr df)"

text \<open>Lines 110 to 113: the bounds are the quantiles of the frame's own column.\<close>

definition in_bounds :: "f64 \<Rightarrow> f64 \<Rightarrow> f64 \<Rightarrow> bool" where
  "in_bounds q1 q3 x = (num_le q1 x \<and> num_le x q3)"

text \<open>Line 113: the rows whose value passes both comparisons.\<close>

definition keep_within :: "f64 \<Rightarrow> f64 \<Rightarrow> f64 list \<Rightarrow> frame \<Rightarrow> frame" where
  "keep_within q1 q3 xs df = select_rows (map (in_bounds q1 q3) xs) df"

definition remove_outliers :: "frame \<Rightarrow> py_error + frame" where
  "remove_outliers df =
     (case get_col df ''preco_m2'' of
        None \<Rightarrow> Inr df
      | Some c \<Rightarrow>
          (case as_floats c of
             Inl e \<Rightarrow> Inl e
           | Inr xs \<Rightarrow>
               Inr (keep_within (quantile xs (1 / 100)) (quantile xs (99 / 100)) xs df)))"

text \<open>
  Lines 116 to 123. \<open>str.lower\<close> and \<open>str.strip\<close> are modelled on ASCII: letters
  and white space beyond ASCII are left as they are. The
  \<open>.str\<close> accessor raises AttributeError on a float64 column and on an object column
  that holds numbers and no string; a cell that is no string becomes missing. The
  replacement table of the source maps each of its four keys to itself.
\<close>

definition lower_char :: "char \<Rightarrow> char" where
  "lower_char c =
     (case map_of (zip ''ABCDEFGHIJKLMNOPQRSTUVWXYZ'' ''abcdefghijklmnopqrstuvwxyz'') c of
        None \<Rightarrow> c
      | Some l \<Rightarrow> l)"

definition is_space :: "char \<Rightarrow> bool" where
  "is_space c =
     (c \<in> set [CHR '' '', CHR 0x09, CHR 0x0A, CHR 0x0B, CHR 0x0C, CHR 0x0D,
                CHR 0x1C, CHR 0x1D, CHR 0x1E, CHR 0x1F])"

definition strip :: "string \<Rightarrow> string" where
  "strip s = rev (dropWhile is_space (rev (dropWhile is_space s)))"

fun lower_strip_cell :: "cell \<Rightarrow> cell" where
  "lower_strip_cell (CStr s) = CStr (strip (map lower_char s))"
| "lower_strip_cell (CNum x) = CNum NaN"

fun is_str :: "cell \<Rightarrow> bool" where
  "is_str (CStr s) = True"
| "is_str (CNum x) = False"

fun str_lower_strip :: "column \<Rightarrow> py_error + column" where
  "str_lower_strip (Floats xs) = Inl AttributeError"
| "str_lower_strip (Objects cs) =
     (if list_ex is_str cs \<or> list_all cell_isna cs then Inr (Objects (map lower_strip_cell cs))
      else Inl AttributeError)"

definition standardize_tipo :: "frame \<Rightarrow> py_error + frame" where
  "standardize_tipo df =
     (case get_col df ''tipo_imovel'' of
        None \<Rightarrow> Inr df
      | Some c \<Rightarrow>
          (case str_lower_strip c of
             Inl e \<Rightarrow> Inl e
           | Inr c' \<Rightarrow> Inr (set_col ''tipo_imovel'' c' df)))"

text \<open>
  The frame after the price selection and the coercion (lines 92 to 103), and as it stands
  before the outlier rejection (lines 92 to 107).
\<close>

definition coerced :: "(string \<Rightarrow> f64) \<Rightarrow> frame \<Rightarrow> string \<Rightarrow> frame" where
  "coerced parse df fonte =
     coerce_columns parse (if fonte = ''leilao'' then select_preco df else df)"

definition pre_rejection :: "(string \<Rightarrow> f64) \<Rightarrow> frame \<Rightarrow> string \<Rightarrow> py_error + frame" where
  "pre_rejection parse df fonte = derive_preco_m2 (coerced parse df fonte)"

definition clean_dataframe :: "(string \<Rightarrow> f64) \<Rightarrow> frame \<Rightarrow> string \<Rightarrow> py_error + frame" where
  "clean_dataframe parse df fonte =
     (case pre_rejection parse df fonte of
        Inl e \<Rightarrow> Inl e
      | Inr d \<Rightarrow>
          (case remove_outliers d of
             Inl e \<Rightarrow> Inl e
           | Inr d' \<Rightarrow> standardize_tipo d'))"

text \<open>The values of a column of a frame, read as numbers.\<close>

definition values_of :: "frame \<Rightarrow> string \<Rightarrow> f64 list" where
  "values_of df name =
     (case get_col df name of
        None \<Rightarrow> []
      | Some c \<Rightarrow> (case as_floats c of Inl e \<Rightarrow> [] | Inr xs \<Rightarrow> xs))"

section \<open>The analyser: \<open>clean_data\<close> and \<open>_combine_datasets\<close>\<close>

record analyzer =
  df_leiloes :: "frame option"
  df_tradicional :: "frame option"
  df_combined :: "frame option"

text \<open>The distinct elements of a list in the order of their first occurrence.\<close>

definition unique :: "'a list \<Rightarrow> 'a list" where
  "unique xs = foldl (\<lambda>acc x. if x \<in> set acc then acc else acc @ [x]) [] xs"

text \<open>
  \<open>pd.concat(datasets, ignore_index=True, sort=False)\<close>: the rows of the frames one
  after the other under a fresh index, the columns of all the frames in the order in which
  they first occur, a frame's missing column filled with \<open>NaN\<close>. The result column
  is float64 when every piece is. Column labels are taken to be unique within a frame.
\<close>

fun column_cells :: "column \<Rightarrow> cell list" where
  "column_cells (Floats xs) = map CNum xs"
| "column_cells (Objects cs) = cs"

fun is_floats :: "column \<Rightarrow> bool" where
  "is_floats (Floats xs) = True"
| "is_floats (Objects cs) = False"

fun floats_of :: "column \<Rightarrow> f64 list" where
  "floats_of (Floats xs) = xs"
| "floats_of (Objects cs) = []"

definition piece :: "string \<Rightarrow> frame \<Rightarrow> column" where
  "piece name df =
     (case get_col df name of
        Some c \<Rightarrow> c
      | None \<Rightarrow> Floats (replicate (length (index df)) NaN))"

definition join_pieces :: "column list \<Rightarrow> column" where
  "join_pieces ps =
     (if list_all is_floats ps then Floats (concat (map floats_of ps))
      else Objects (concat (map column_cells ps)))"

definition concat_frames :: "frame list \<Rightarrow> frame" where
  "concat_frames fs =
     \<lparr>index = [0 ..< length (concat (map index fs))],
      columns =
        map (\<lambda>name. (name, join_pieces (map (piece name) fs)))
          (unique (concat (map (\<lambda>df. map fst (columns df)) fs)))\<rparr>"

definition combine_datasets :: "analyzer \<Rightarrow> analyzer" where
  "combine_datasets s =
     (let datasets =
            (case df_leiloes s of None \<Rightarrow> [] | Some d \<Rightarrow> [d]) @
            (case df_tradicional s of None \<Rightarrow> [] | Some d \<Rightarrow> [d])
      in if datasets = [] then s else s\<lparr>df_combined := Some (concat_frames datasets)\<rparr>)"

fun clean_slot ::
  "(string \<Rightarrow> f64) \<Rightarrow> frame option \<Rightarrow> string \<Rightarrow> py_error + frame option" where
  "clean_slot parse None fonte = Inr None"
| "clean_slot parse (Some d) fonte =
     (case clean_dataframe parse d fonte of Inl e \<Rightarrow> Inl e | Inr d' \<Rightarrow> Inr (Some d'))"

text \<open>
  \<open>clean_data\<close>, lines 71 to 88. The value is what the caller gets: \<open>Inl\<close> would be
  an exception that reaches the caller, \<open>Inr\<close> the analyser after a normal return. The
  handler of line 87 catches every exception of the body and logs it, keeping the
  assignments made before it was raised.
\<close>

definition clean_data :: "(string \<Rightarrow> f64) \<Rightarrow> analyzer \<Rightarrow> py_error + analyzer" where
  "clean_data parse s =
     (case clean_slot parse (df_leiloes s) ''leilao'' of
        Inl e \<Rightarrow> Inr s
      | Inr l \<Rightarrow>
          (case clean_slot parse (df_tradicional s) ''tradicional'' of
             Inl e \<Rightarrow> Inr (s\<lparr>df_leiloes := l\<rparr>)
           | Inr t \<Rightarrow> Inr (combine_datasets (s\<lparr>df_leiloes := l, df_tradicional := t\<rparr>))))"

section \<open>The analyser: \<open>generate_statistics\<close>\<close>

record source_stats =
  total_imoveis :: nat
  preco_medio :: f64
  preco_mediano :: f64
  preco_m2_medio :: f64
  preco_m2_mediano :: f64
  area_media :: f64

record comparacao =
  diferenca_preco_medio :: f64
  diferenca_preco_m2_medio :: f64

datatype entry = Source source_stats | Comparison comparacao

text \<open>The mask \<open>df['fonte'] == fonte\<close>: a missing value equals nothing.\<close>

fun cell_eq :: "cell \<Rightarrow> cell \<Rightarrow> bool" where
  "cell_eq (CStr a) (CStr b) = (a = b)"
| "cell_eq (CNum x) (CNum y) = num_eq x y"
| "cell_eq a b = False"

definition series_stat :: "(f64 list \<Rightarrow> f64) \<Rightarrow> frame \<Rightarrow> string \<Rightarrow> py_error + f64" where
  "series_stat f df name =
     (case get_col df name of
        None \<Rightarrow> Inl (KeyError name)
      | Some c \<Rightarrow> (case as_floats c of Inl e \<Rightarrow> Inl e | Inr xs \<Rightarrow> Inr (f xs)))"

definition bind_err :: "'e + 'a \<Rightarrow> ('a \<Rightarrow> 'e + 'b) \<Rightarrow> 'e + 'b" where
  "bind_err m f = (case m of Inl e \<Rightarrow> Inl e | Inr x \<Rightarrow> f x)"

text \<open>Lines 154 to 161, for the rows of one source.\<close>

definition stats_of_source :: "frame \<Rightarrow> py_error + source_stats" where
  "stats_of_source d =
     bind_err (series_stat mean d ''preco'') (\<lambda>pm.
     bind_err (series_stat median d ''preco'') (\<lambda>pd.
     bind_err (series_stat mean d ''preco_m2'') (\<lambda>mm.
     bind_err (series_stat median d ''preco_m2'') (\<lambda>md.
     bind_err (series_stat mean d ''area'') (\<lambda>am.
       Inr \<lparr>total_imoveis = length (index d), preco_medio = pm, preco_mediano = pd,
            preco_m2_medio = mm, preco_m2_mediano = md, area_media = am\<rparr>)))))"

text \<open>The loop of line 151 over the distinct values of the column \<open>fonte\<close>.\<close>

fun stats_loop ::
  "frame \<Rightarrow> cell list \<Rightarrow> cell list \<Rightarrow> (cell \<times> source_stats) list \<Rightarrow>
   py_error + (cell \<times> source_stats) list" where
  "stats_loop df fcol [] acc = Inr acc"
| "stats_loop df fcol (k # ks) acc =
     (case stats_of_source (select_rows (map (\<lambda>c. cell_eq c k) fcol) df) of
        Inl e \<Rightarrow> Inl e
      | Inr st \<Rightarrow> stats_loop df fcol ks (AList.update k st acc))"

definition source_statistics :: "frame \<Rightarrow> py_error + (cell \<times> source_stats) list" where
  "source_statistics df =
     (case get_col df ''fonte'' of
        None \<Rightarrow> Inl (KeyError ''fonte'')
      | Some c \<Rightarrow> stats_loop df (column_cells c) (unique (column_cells c)) [])"

text \<open>The percentage of line 166 and 167, in numpy's float64 arithmetic.\<close>

definition pct_diff :: "f64 \<Rightarrow> f64 \<Rightarrow> f64" where
  "pct_diff trad leil = num_mul (num_div (num_sub trad leil) trad) (Fin 100)"

text \<open>Lines 164 to 168: the gate is on the two keys by name.\<close>

definition add_comparison :: "(cell \<times> source_stats) list \<Rightarrow> (cell \<times> entry) list" where
  "add_comparison ps =
     (let stats = map (\<lambda>(k, v). (k, Source v)) ps in
      case map_of ps (CStr ''leilao'') of
        None \<Rightarrow> stats
      | Some l \<Rightarrow>
          (case map_of ps (CStr ''tradicional'') of
             None \<Rightarrow> stats
           | Some t \<Rightarrow>
               AList.update (CStr ''comparacao'')
                 (Comparison
                    \<lparr>diferenca_preco_medio = pct_diff (preco_medio t) (preco_medio l),
                     diferenca_preco_m2_medio =
                       pct_diff (preco_m2_medio t) (preco_m2_medio l)\<rparr>)
                 stats))"

text \<open>
  \<open>generate_statistics\<close>: None when no combined frame is loaded and when anything in
  the body raises (the handler of line 180), the statistics otherwise. \<open>written\<close> says
  whether the statistics file could be written (lines 171 to 175).
\<close>

definition generate_statistics :: "bool \<Rightarrow> analyzer \<Rightarrow> (cell \<times> entry) list option" where
  "generate_statistics written s =
     (case df_combined s of
        None \<Rightarrow> None
      | Some df \<Rightarrow>
          (case source_statistics df of
             Inl e \<Rightarrow> None
           | Inr ps \<Rightarrow> if written then Some (add_comparison ps) else None))"

section \<open>Text helpers of the scrapers\<close>

text \<open>
  Strings are ASCII here: \<open>\d\<close> is a decimal digit \<open>0\<close> to \<open>9\<close> and \<open>\s\<close> one
  of the ten ASCII characters that Python counts as white space (\<open>is_space\<close>). The
  digits and the white space that Python knows beyond ASCII are not modelled.
\<close>

definition is_digit :: "char \<Rightarrow> bool" where
  "is_digit c = (c \<in> set ''0123456789'')"

definition digit_val :: "char \<Rightarrow> nat" where
  "digit_val c = of_char c - 48"

definition nat_of_digits :: "string \<Rightarrow> nat" where
  "nat_of_digits ds = foldl (\<lambda>n c. 10 * n + digit_val c) 0 ds"

text \<open>
  \<open>re.sub(r'[^\d,.]', '', text).replace(',', '.')\<close>: only digits, commas and full
  stops are kept, and every comma becomes a full stop.
\<close>

definition sanitize :: "string \<Rightarrow> string" where
  "sanitize text =
     map (\<lambda>c. if c = CHR '','' then CHR ''.'' else c)
       (filter (\<lambda>c. is_digit c \<or> c = CHR '','' \<or> c = CHR ''.'') text)"

text \<open>
  Python's \<open>float(s)\<close> on the strings it is given here, which hold digits and full stops
  only: digits with at most one full stop and at least one digit. None stands for
  ValueError. The value is the exact decimal.
\<close>

definition py_float :: "string \<Rightarrow> real option" where
  "py_float s =
     (let ip = takeWhile is_digit s in
      case dropWhile is_digit s of
        [] \<Rightarrow> if ip = [] then None else Some (real (nat_of_digits ip))
      | c # fp \<Rightarrow>
          if c = CHR ''.'' \<and> list_all is_digit fp \<and> (ip \<noteq> [] \<or> fp \<noteq> [])
          then Some (real (nat_of_digits ip) + real (nat_of_digits fp) / 10 ^ length fp)
          else None)"

text \<open>
  \<open>re.search(r'(\d+(?:,\d+)?)\s*m\<close>...\<open>, text)\<close>, the first group of the leftmost match.
  At one start position the greedy choice is the only one that can succeed: after a shorter
  run of digits the next character is a digit, and after the digits without the comma
  group it is the comma, neither of which is white space or the letter m. The optional
  superscript after the m changes neither the success nor the group.
\<close>

definition area_match_at :: "string \<Rightarrow> string option" where
  "area_match_at s =
     (let ds = takeWhile is_digit s; r1 = dropWhile is_digit s in
      if ds = [] then None
      else
        let (grp, r2) =
              (case r1 of
                 [] \<Rightarrow> ([], r1)
               | c # t \<Rightarrow>
                   if c = CHR '','' \<and> takeWhile is_digit t \<noteq> []
                   then (c # takeWhile is_digit t, dropWhile is_digit t)
                   else ([], r1))
        in case dropWhile is_space r2 of
             [] \<Rightarrow> None
           | c # t \<Rightarrow> if c = CHR ''m'' then Some (ds @ grp) else None)"

fun area_search :: "string \<Rightarrow> string option" where
  "area_search [] = None"
| "area_search (c # t) =
     (case area_match_at (c # t) of Some g \<Rightarrow> Some g | None \<Rightarrow> area_search t)"

text \<open>Line 193: \<open>float(area_match.group(1).replace(',', '.'))\<close>.\<close>

definition area_of_text :: "string \<Rightarrow> real option" where
  "area_of_text text =
     (case area_search text of None \<Rightarrow> None | Some g \<Rightarrow> py_float (sanitize g))"

text \<open>\<open>re.search(r'(\d+)', text)\<close>: the first run of digits, as an integer.\<close>

definition first_number :: "string \<Rightarrow> nat option" where
  "first_number text =
     (let r = dropWhile (\<lambda>c. \<not> is_digit c) text in
      if r = [] then None else Some (nat_of_digits (takeWhile is_digit r)))"

fun starts_with :: "string \<Rightarrow> string \<Rightarrow> bool" where
  "starts_with [] s = True"
| "starts_with (p # ps) [] = False"
| "starts_with (p # ps) (c # cs) = (p = c \<and> starts_with ps cs)"

fun contains_str :: "string \<Rightarrow> string \<Rightarrow> bool" where
  "contains_str p [] = starts_with p []"
| "contains_str p (c # cs) = (starts_with p (c # cs) \<or> contains_str p cs)"

fun str_nat :: "nat \<Rightarrow> string" where
  "str_nat n =
     (if n < 10 then [''0123456789'' ! n]
      else str_nat (n div 10) @ [''0123456789'' ! (n mod 10)])"

declare str_nat.simps [simp del]

definition str_int :: "int \<Rightarrow> string" where
  "str_int i = (if i < 0 then CHR ''-'' # str_nat (nat (- i)) else str_nat (nat i))"

section \<open>Pages and the network\<close>

text \<open>
  What the scrapers read of a parsed page: the \<open>href\<close> of every anchor that has one, in
  document order; for a CSS selector the text of the first element it matches, as
  \<open>get_text(strip=True)\<close> gives it (no entry when nothing matches); and the texts of the
  elements that \<open>.feature, .caracteristica, .amenity\<close> matches.
\<close>

record page =
  hrefs :: "string list"
  texts :: "(string \<times> string) list"
  features :: "string list"

datatype transport_error = Timeout | ConnectionReset | InvalidURL

datatype reply = Raised transport_error | Response nat page

datatype fetch_error = Transport transport_error | HTTPError nat

text \<open>
  The world outside the scraper: the server's reply to the k-th request for a URL (k counts
  the earlier requests for it), the requests made so far, and the clock. The pauses between
  requests (\<open>time.sleep\<close>) and the log lines change nothing that a method returns or
  stores, and are left out.
\<close>

record world =
  server :: "string \<Rightarrow> nat \<Rightarrow> reply"
  requests :: "string list"
  now :: string

text \<open>\<open>self.scraper.get(url)\<close>: one request.\<close>

definition http_get :: "string \<Rightarrow> world \<Rightarrow> reply \<times> world" where
  "http_get url w =
     (server w url (count_list (requests w) url), w\<lparr>requests := requests w @ [url]\<rparr>)"

text \<open>
  The first three statements of every \<open>try\<close> body: the request, \<open>raise_for_status\<close>
  (an HTTPError for a status from 400 to 599) and the parse.
\<close>

definition fetch_page :: "string \<Rightarrow> world \<Rightarrow> (fetch_error + page) \<times> world" where
  "fetch_page url w =
     (case http_get url w of
        (Raised e, w') \<Rightarrow> (Inl (Transport e), w')
      | (Response status pg, w') \<Rightarrow>
          if 400 \<le> status \<and> status < 600 then (Inl (HTTPError status), w')
          else (Inr pg, w'))"

definition safe_extract :: "page \<Rightarrow> string \<Rightarrow> string option" where
  "safe_extract pg selector = map_of (texts pg) selector"

text \<open>
  The link loop of both URL collectors (lines 78 to 83). \<open>urljoin\<close> is the library's,
  taken as the parameter \<open>join\<close>.
\<close>

definition add_links ::
  "(string \<Rightarrow> string \<Rightarrow> string) \<Rightarrow> string \<Rightarrow> string list \<Rightarrow> string list \<Rightarrow> string list" where
  "add_links join base links urls =
     foldl (\<lambda>acc href.
              if href \<noteq> [] \<and> contains_str ''/imovel/'' href
              then (if join base href \<in> set acc then acc else acc @ [join base href])
              else acc)
       urls links"

text \<open>The page loop: a page whose fetch fails is logged and skipped.\<close>

fun visit_pages ::
  "(string \<Rightarrow> string \<Rightarrow> string) \<Rightarrow> string \<Rightarrow> string list \<Rightarrow> string list \<Rightarrow> world \<Rightarrow>
   string list \<times> world" where
  "visit_pages join base [] urls w = (urls, w)"
| "visit_pages join base (u # us) urls w =
     (case fetch_page u w of
        (Inl e, w') \<Rightarrow> visit_pages join base us urls w'
      | (Inr pg, w') \<Rightarrow> visit_pages join base us (add_links join base (hrefs pg) urls) w')"

text \<open>\<open>urls[:max_imoveis]\<close> when \<open>len(urls) > max_imoveis\<close>, for a Python integer.\<close>

definition cap_urls :: "int \<Rightarrow> string list \<Rightarrow> string list" where
  "cap_urls max_imoveis urls =
     (if int (length urls) > max_imoveis
      then (if max_imoveis < 0 then take (nat (int (length urls) + max_imoveis)) urls
            else take (nat max_imoveis) urls)
      else urls)"

text \<open>The state of a scraper object that the methods change: the list \<open>self.data\<close>.\<close>

record 'l scraper =
  data :: "'l list"

text \<open>
  The extraction loop of both scrapers (lines 183 to 191 and 261 to 269): a listing is
  appended when the extraction returned one.
\<close>

fun extract_each ::
  "(string \<Rightarrow> world \<Rightarrow> 'l option \<times> world) \<Rightarrow> string list \<Rightarrow> 'l scraper \<times> world \<Rightarrow>
   'l scraper \<times> world" where
  "extract_each ex [] (s, w) = (s, w)"
| "extract_each ex (u # us) (s, w) =
     (case ex u w of
        (None, w') \<Rightarrow> extract_each ex us (s, w')
      | (Some d, w') \<Rightarrow> extract_each ex us (s\<lparr>data := data s @ [d]\<rparr>, w'))"

section \<open>The auction scraper\<close>

definition leilao_base :: string where
  "leilao_base = ''https://www.leiloesjudiciais.com.br''"

record leilao_listing =
  l_url :: string
  l_titulo :: "string option"
  l_preco_inicial :: "real option"
  l_preco_atual :: "real option"
  l_endereco :: "string option"
  l_area :: "real option"
  l_tipo_imovel :: "string option"
  l_data_leilao :: "string option"
  l_situacao :: "string option"
  l_descricao :: "string option"
  l_data_coleta :: string

text \<open>
  \<open>LeilaoScraper._extract_price\<close>, lines 140 to 151: None when the selector matches
  nothing, when the text or the sanitized text is empty, and when \<open>float\<close> raises.
\<close>

definition extract_price_leilao :: "page \<Rightarrow> string \<Rightarrow> real option" where
  "extract_price_leilao pg selector =
     (case safe_extract pg selector of
        None \<Rightarrow> None
      | Some price_text \<Rightarrow>
          if price_text = [] then None
          else if sanitize price_text = [] then None
          else py_float (sanitize price_text))"

text \<open>
  \<open>LeilaoScraper._extract_area\<close>, lines 153 to 163. Python's \<open>a or b\<close> is \<open>a\<close>
  when \<open>a\<close> is a non-empty string and \<open>b\<close> otherwise.
\<close>

definition extract_area_leilao :: "page \<Rightarrow> real option" where
  "extract_area_leilao pg =
     (let area_text =
            (case safe_extract pg ''.area'' of
               None \<Rightarrow> safe_extract pg ''.metragem''
             | Some t \<Rightarrow> if t = [] then safe_extract pg ''.metragem'' else Some t)
      in case area_text of
           None \<Rightarrow> None
         | Some t \<Rightarrow> if t = [] then None else area_of_text t)"

text \<open>\<open>LeilaoScraper.extract_imovel_data\<close>, lines 105 to 130: one request, no retry.\<close>

definition extract_imovel_data_leilao :: "string \<Rightarrow> world \<Rightarrow> leilao_listing option \<times> world" where
  "extract_imovel_data_leilao url w =
     (case fetch_page url w of
        (Inl e, w') \<Rightarrow> (None, w')
      | (Inr pg, w') \<Rightarrow>
          (Some \<lparr>l_url = url,
                 l_titulo = safe_extract pg ''h1'',
                 l_preco_inicial = extract_price_leilao pg ''.preco-inicial'',
                 l_preco_atual = extract_price_leilao pg ''.preco-atual'',
                 l_endereco = safe_extract pg ''.endereco'',
                 l_area = extract_area_leilao pg,
                 l_tipo_imovel = safe_extract pg ''.tipo-imovel'',
                 l_data_leilao = safe_extract pg ''.data-leilao'',
                 l_situacao = safe_extract pg ''.situacao'',
                 l_descricao = safe_extract pg ''.descricao'',
                 l_data_coleta = now w'\<rparr>, w'))"

definition leilao_page_url :: "int \<Rightarrow> string" where
  "leilao_page_url n = leilao_base @ ''/imoveis?page='' @ str_int n"

text \<open>\<open>get_imoveis_urls\<close>, lines 63 to 93, over \<open>range(1, max_pages + 1)\<close>.\<close>

definition get_imoveis_urls ::
  "(string \<Rightarrow> string \<Rightarrow> string) \<Rightarrow> int \<Rightarrow> world \<Rightarrow> string list \<times> world" where
  "get_imoveis_urls join max_pages w =
     visit_pages join leilao_base (map leilao_page_url [1 .. max_pages]) [] w"

text \<open>
  \<open>scrape_leiloes\<close>, lines 165 to 193. The method returns None; what it leaves is the
  scraper object, here with the world after the run.
\<close>

definition scrape_leiloes ::
  "(string \<Rightarrow> string \<Rightarrow> string) \<Rightarrow> int \<Rightarrow> int \<Rightarrow> leilao_listing scraper \<times> world \<Rightarrow>
   leilao_listing scraper \<times> world" where
  "scrape_leiloes join max_pages max_imoveis sw =
     (case get_imoveis_urls join max_pages (snd sw) of
        (urls, w') \<Rightarrow>
          extract_each extract_imovel_data_leilao (cap_urls max_imoveis urls) (fst sw, w'))"

section \<open>The traditional-market scraper\<close>

definition vivareal_base :: string where
  "vivareal_base = ''https://www.vivareal.com.br''"

record vivareal_listing =
  v_url :: string
  v_titulo :: "string option"
  v_preco :: "real option"
  v_endereco :: "string option"
  v_bairro :: "string option"
  v_cidade :: "string option"
  v_area :: "real option"
  v_quartos :: "nat option"
  v_banheiros :: "nat option"
  v_vagas :: "nat option"
  v_tipo_imovel :: "string option"
  v_descricao :: "string option"
  v_caracteristicas :: "string list option"
  v_preco_m2 :: "real option"
  v_data_coleta :: string
  v_fonte :: string

text \<open>
  \<open>VivaRealScraper._extract_price\<close>, lines 152 to 168: the loop returns at the first
  selector that matches an element, whatever becomes of its text.
\<close>

fun price_chain :: "page \<Rightarrow> string list \<Rightarrow> real option" where
  "price_chain pg [] = None"
| "price_chain pg (selector # rest) =
     (case map_of (texts pg) selector of
        None \<Rightarrow> price_chain pg rest
      | Some price_text \<Rightarrow>
          if sanitize price_text = [] then None else py_float (sanitize price_text))"

definition price_selectors :: "string list" where
  "price_selectors = [''.price'', ''.valor'', ''[data-testid=\"price\"]'', ''.js-price'']"

definition extract_price_vivareal :: "page \<Rightarrow> real option" where
  "extract_price_vivareal pg = price_chain pg price_selectors"

text \<open>
  \<open>VivaRealScraper._extract_area\<close>, lines 182 to 195: the loop goes on to the next
  selector when the text is empty and when the pattern does not match.
\<close>

fun area_chain :: "page \<Rightarrow> string list \<Rightarrow> real option" where
  "area_chain pg [] = None"
| "area_chain pg (selector # rest) =
     (case safe_extract pg selector of
        None \<Rightarrow> area_chain pg rest
      | Some area_text \<Rightarrow>
          if area_text = [] then area_chain pg rest
          else (case area_search area_text of
                  None \<Rightarrow> area_chain pg rest
                | Some g \<Rightarrow> py_float (sanitize g)))"

definition area_selectors :: "string list" where
  "area_selectors = [''.area'', ''.metragem'', ''[data-testid=\"area\"]'']"

definition extract_area_vivareal :: "page \<Rightarrow> real option" where
  "extract_area_vivareal pg = area_chain pg area_selectors"

text \<open>\<open>_extract_address\<close>, lines 170 to 180.\<close>

fun address_chain :: "page \<Rightarrow> string list \<Rightarrow> string option" where
  "address_chain pg [] = None"
| "address_chain pg (selector # rest) =
     (case safe_extract pg selector of
        None \<Rightarrow> address_chain pg rest
      | Some address \<Rightarrow> if address = [] then address_chain pg rest else Some address)"

definition extract_address :: "page \<Rightarrow> string option" where
  "extract_address pg =
     address_chain pg [''.address'', ''.endereco'', ''[data-testid=\"address\"]'']"

text \<open>\<open>_extract_number\<close>, lines 197 to 206, and \<open>_extract_features\<close>, lines 208 to 221.\<close>

definition extract_number :: "page \<Rightarrow> string \<Rightarrow> nat option" where
  "extract_number pg selector =
     (case safe_extract pg selector of
        None \<Rightarrow> None
      | Some text \<Rightarrow> if text = [] then None else first_number text)"

definition extract_features :: "page \<Rightarrow> string list option" where
  "extract_features pg =
     (let fs = filter (\<lambda>t. t \<noteq> []) (features pg) in if fs = [] then None else Some fs)"

text \<open>
  Lines 135 and 136: the price per square metre is computed when the price and the area
  are both present and not zero.
\<close>

definition scraped_preco_m2 :: "real option \<Rightarrow> real option \<Rightarrow> real option" where
  "scraped_preco_m2 preco area =
     (case preco of
        None \<Rightarrow> None
      | Some p \<Rightarrow>
          (case area of
             None \<Rightarrow> None
           | Some a \<Rightarrow> if p \<noteq> 0 \<and> a \<noteq> 0 then Some (p / a) else None))"

text \<open>\<open>VivaRealScraper.extract_imovel_data\<close>, lines 108 to 142: one request, no retry.\<close>

definition extract_imovel_data_vivareal ::
  "string \<Rightarrow> world \<Rightarrow> vivareal_listing option \<times> world" where
  "extract_imovel_data_vivareal url w =
     (case fetch_page url w of
        (Inl e, w') \<Rightarrow> (None, w')
      | (Inr pg, w') \<Rightarrow>
          (Some \<lparr>v_url = url,
                 v_titulo = safe_extract pg ''h1'',
                 v_preco = extract_price_vivareal pg,
                 v_endereco = extract_address pg,
                 v_bairro = safe_extract pg ''.neighborhood'',
                 v_cidade = safe_extract pg ''.city'',
                 v_area = extract_area_vivareal pg,
                 v_quartos = extract_number pg ''.bedrooms'',
                 v_banheiros = extract_number pg ''.bathrooms'',
                 v_vagas = extract_number pg ''.parking'',
                 v_tipo_imovel = safe_extract pg ''.property-type'',
                 v_descricao = safe_extract pg ''.description'',
                 v_caracteristicas = extract_features pg,
                 v_preco_m2 = scraped_preco_m2 (extract_price_vivareal pg)
                                (extract_area_vivareal pg),
                 v_data_coleta = now w',
                 v_fonte = ''vivareal''\<rparr>, w'))"

definition search_url :: "string \<Rightarrow> string \<Rightarrow> int \<Rightarrow> string" where
  "search_url cidade tipo n =
     vivareal_base @ ''/venda/'' @ cidade @ ''/'' @ tipo @ ''/?pagina='' @ str_int n"

text \<open>\<open>search_imoveis\<close>, lines 65 to 96.\<close>

definition search_imoveis ::
  "(string \<Rightarrow> string \<Rightarrow> string) \<Rightarrow> string \<Rightarrow> string \<Rightarrow> int \<Rightarrow> world \<Rightarrow> string list \<times> world" where
  "search_imoveis join cidade tipo max_pages w =
     visit_pages join vivareal_base (map (search_url cidade tipo) [1 .. max_pages]) [] w"

text \<open>The two nested loops of lines 244 to 251, over the pairs of a city and a type.\<close>

fun search_all ::
  "(string \<Rightarrow> string \<Rightarrow> string) \<Rightarrow> int \<Rightarrow> (string \<times> string) list \<Rightarrow> string list \<Rightarrow> world \<Rightarrow>
   string list \<times> world" where
  "search_all join max_pages [] all_urls w = (all_urls, w)"
| "search_all join max_pages ((cidade, tipo) # rest) all_urls w =
     (case search_imoveis join cidade tipo max_pages w of
        (urls, w') \<Rightarrow> search_all join max_pages rest (all_urls @ urls) w')"

text \<open>
  \<open>scrape_mercado_tradicional\<close>, lines 223 to 271. An empty list of cities or of types
  stands for the default. \<open>list(set(all_urls))\<close> lists the distinct URLs in an order the
  language does not fix: the parameter \<open>set_order\<close>.
\<close>

definition search_pairs :: "string list \<Rightarrow> string list \<Rightarrow> (string \<times> string) list" where
  "search_pairs cidades tipos =
     (let cs = (if cidades = []
                then [''sao-paulo'', ''rio-de-janeiro'', ''goiania'', ''brasilia'']
                else cidades);
          ts = (if tipos = [] then [''apartamento'', ''casa''] else tipos)
      in concat (map (\<lambda>c. map (\<lambda>t. (c, t)) ts) cs))"

definition scrape_mercado_tradicional ::
  "(string \<Rightarrow> string \<Rightarrow> string) \<Rightarrow> (string list \<Rightarrow> string list) \<Rightarrow> string list \<Rightarrow> string list \<Rightarrow>
   int \<Rightarrow> int \<Rightarrow> vivareal_listing scraper \<times> world \<Rightarrow> vivareal_listing scraper \<times> world" where
  "scrape_mercado_tradicional join set_order cidades tipos max_pages max_imoveis sw =
     (case search_all join max_pages (search_pairs cidades tipos) [] (snd sw) of
        (all_urls, w') \<Rightarrow>
          extract_each extract_imovel_data_vivareal
            (cap_urls max_imoveis (set_order all_urls)) (fst sw, w'))"

text \<open>\<open>save_data\<close> writes the whole of \<open>self.data\<close>: the content of the saved file.\<close>

definition save_data :: "'l scraper \<Rightarrow> 'l list" where
  "save_data s = data s"

section \<open>Notions used in the statements\<close>

text \<open>
  A cleaned frame lies within the percentiles of a frame \<open>pre\<close> when one mask, the
  test of \<open>pre\<close>'s own price-per-area values against \<open>pre\<close>'s own 1st and 99th
  percentiles, selects both its labels and its price-per-area values, so that every
  retained value passes the test.
\<close>

definition within_percentiles :: "frame \<Rightarrow> frame \<Rightarrow> bool" where
  "within_percentiles pre out =
     (let xs = values_of pre ''preco_m2'';
          q1 = quantile xs (1 / 100);
          q3 = quantile xs (99 / 100)
      in index out = select (map (in_bounds q1 q3) xs) (index pre) \<and>
         values_of out ''preco_m2'' = select (map (in_bounds q1 q3) xs) xs \<and>
         list_all (in_bounds q1 q3) (values_of out ''preco_m2''))"

text \<open>
  A slot of the analyser after \<open>clean_data\<close> is its own when it is untouched or holds
  the cleaning of the frame it held before, under its own source label.
\<close>

definition own_slot ::
  "(string \<Rightarrow> f64) \<Rightarrow> string \<Rightarrow> frame option \<Rightarrow> frame option \<Rightarrow> bool" where
  "own_slot parse fonte before after =
     (after = before \<or>
      (case before of
         None \<Rightarrow> False
       | Some d \<Rightarrow>
           (case clean_dataframe parse d fonte of
              Inl e \<Rightarrow> False
            | Inr out \<Rightarrow> after = Some out)))"

text \<open>
  The cleaner derives the price per area itself when the frame brings no such column or an
  all-missing one (line 106). The usable rows of a frame are those whose price and area are
  both present after the coercion.
\<close>

definition derives_preco_m2 :: "frame \<Rightarrow> bool" where
  "derives_preco_m2 df = (case get_col df ''preco_m2'' of None \<Rightarrow> True | Some c \<Rightarrow> isna_all c)"

definition usable_rows :: "frame \<Rightarrow> nat" where
  "usable_rows pre =
     length (filter (\<lambda>(p, a). p \<noteq> NaN \<and> a \<noteq> NaN)
               (zip (values_of pre ''preco'') (values_of pre ''area'')))"

text \<open>
  Reading a statistics map: the labels of the column \<open>fonte\<close> of a frame, the
  per-source entry under a name, and the comparison section.
\<close>

definition fonte_labels :: "frame \<Rightarrow> cell list" where
  "fonte_labels df = (case get_col df ''fonte'' of None \<Rightarrow> [] | Some c \<Rightarrow> column_cells c)"

definition source_of :: "(cell \<times> entry) list \<Rightarrow> string \<Rightarrow> source_stats option" where
  "source_of stats name =
     (case map_of stats (CStr name) of Some (Source st) \<Rightarrow> Some st | _ \<Rightarrow> None)"

definition comparison_of :: "(cell \<times> entry) list \<Rightarrow> comparacao option" where
  "comparison_of stats =
     (case map_of stats (CStr ''comparacao'') of Some (Comparison c) \<Rightarrow> Some c | _ \<Rightarrow> None)"

text \<open>The rows of one source, as line 152 selects them.\<close>

definition source_rows :: "frame \<Rightarrow> string \<Rightarrow> frame" where
  "source_rows df name = select_rows (map (\<lambda>c. cell_eq c (CStr name)) (fonte_labels df)) df"

text \<open>The listings that the extraction loop gets from a list of URLs, in order.\<close>

fun extracted :: "(string \<Rightarrow> world \<Rightarrow> 'l option \<times> world) \<Rightarrow> string list \<Rightarrow> world \<Rightarrow> 'l list" where
  "extracted ex [] w = []"
| "extracted ex (u # us) w =
     (case ex u w of
        (None, w') \<Rightarrow> extracted ex us w'
      | (Some d, w') \<Rightarrow> d # extracted ex us w')"

section \<open>Example data\<close>

definition no_parse :: "string \<Rightarrow> f64" where
  "no_parse s = NaN"

text \<open>Frames as \<open>load_data\<close> builds them: the column \<open>fonte\<close> is set last.\<close>

definition market_frame :: frame where
  "market_frame =
     \<lparr>index = [0, 1, 2, 3],
      columns = [(''preco'', Floats [Fin 100000, Fin 200000, Fin 300000, NaN]),
                 (''area'', Floats [Fin 100, Fin 100, Fin 100, Fin 50]),
                 (''fonte'', Objects [CStr ''tradicional'', CStr ''tradicional'',
                                      CStr ''tradicional'', CStr ''tradicional''])]\<rparr>"

definition market_cleaned :: frame where
  "market_cleaned =
     \<lparr>index = [1],
      columns = [(''preco'', Floats [Fin 200000]), (''area'', Floats [Fin 100]),
                 (''fonte'', Objects [CStr ''tradicional'']),
                 (''preco_m2'', Floats [Fin 2000])]\<rparr>"

definition auction_frame :: frame where
  "auction_frame =
     \<lparr>index = [0, 1],
      columns = [(''preco_inicial'', Floats [Fin 100000, Fin 80000]),
                 (''preco_atual'', Floats [Fin 120000, NaN]),
                 (''area'', Floats [Fin 100, Fin 80]),
                 (''fonte'', Objects [CStr ''leilao'', CStr ''leilao''])]\<rparr>"

definition auction_cleaned :: frame where
  "auction_cleaned =
     \<lparr>index = [0],
      columns = [(''preco_inicial'', Floats [Fin 100000]),
                 (''preco_atual'', Floats [Fin 120000]),
                 (''area'', Floats [Fin 100]),
                 (''fonte'', Objects [CStr ''leilao'']),
                 (''preco'', Floats [Fin 120000]),
                 (''preco_m2'', Floats [Fin 1200])]\<rparr>"

definition loaded :: analyzer where
  "loaded =
     \<lparr>df_leiloes = Some auction_frame, df_tradicional = Some market_frame,
      df_combined = None\<rparr>"

definition loaded_cleaned :: analyzer where
  "loaded_cleaned =
     \<lparr>df_leiloes = Some auction_cleaned, df_tradicional = Some market_cleaned,
      df_combined =
        Some \<lparr>index = [0, 1],
              columns = [(''preco_inicial'', Floats [Fin 100000, NaN]),
                         (''preco_atual'', Floats [Fin 120000, NaN]),
                         (''area'', Floats [Fin 100, Fin 100]),
                         (''fonte'', Objects [CStr ''leilao'', CStr ''tradicional'']),
                         (''preco'', Floats [Fin 120000, Fin 200000]),
                         (''preco_m2'', Floats [Fin 1200, Fin 2000])]\<rparr>\<rparr>"

definition quartet :: frame where
  "quartet =
     \<lparr>index = [0, 1, 2, 3],
      columns = [(''preco'', Floats [Fin 100000, Fin 200000, Fin 300000, Fin 400000]),
                 (''area'', Floats [Fin 100, Fin 100, Fin 100, Fin 100]),
                 (''preco_m2'', Floats [Fin 1000, Fin 2000, Fin 3000, Fin 4000])]\<rparr>"

definition quartet_once :: frame where
  "quartet_once =
     \<lparr>index = [1, 2],
      columns = [(''preco'', Floats [Fin 200000, Fin 300000]),
                 (''area'', Floats [Fin 100, Fin 100]),
                 (''preco_m2'', Floats [Fin 2000, Fin 3000])]\<rparr>"

definition quartet_twice :: frame where
  "quartet_twice =
     \<lparr>index = [],
      columns = [(''preco'', Floats []), (''area'', Floats []), (''preco_m2'', Floats [])]\<rparr>"

definition odd_areas :: frame where
  "odd_areas =
     \<lparr>index = [0, 1, 2, 3, 4],
      columns = [(''preco'', Floats [Fin 300000, Fin 200000, Fin 100000, Fin 100000, Fin 150000]),
                 (''area'', Floats [Fin (- 100), Fin (- 100), Fin (- 100), Fin 100, NaN]),
                 (''fonte'', Objects [CStr ''tradicional'', CStr ''tradicional'',
                                      CStr ''tradicional'', CStr ''tradicional'',
                                      CStr ''tradicional''])]\<rparr>"

definition unusable :: frame where
  "unusable =
     \<lparr>index = [0, 1],
      columns = [(''preco_inicial'', Floats [Fin 100000, NaN]),
                 (''area'', Floats [NaN, Fin 80]),
                 (''fonte'', Objects [CStr ''leilao'', CStr ''leilao''])]\<rparr>"

definition odd_areas_cleaned :: frame where
  "odd_areas_cleaned =
     \<lparr>index = [1, 2],
      columns = [(''preco'', Floats [Fin 200000, Fin 100000]),
                 (''area'', Floats [Fin (- 100), Fin (- 100)]),
                 (''fonte'', Objects [CStr ''tradicional'', CStr ''tradicional'']),
                 (''preco_m2'', Floats [Fin (- 2000), Fin (- 1000)])]\<rparr>"

definition unusable_cleaned :: frame where
  "unusable_cleaned =
     \<lparr>index = [],
      columns = [(''preco_inicial'', Floats []), (''area'', Floats []),
                 (''fonte'', Objects []), (''preco'', Floats []),
                 (''preco_m2'', Floats [])]\<rparr>"

definition auction_prepared :: frame where
  "auction_prepared =
     \<lparr>index = [0, 1],
      columns = [(''preco_inicial'', Floats [Fin 100000, Fin 80000]),
                 (''preco_atual'', Floats [Fin 120000, NaN]),
                 (''area'', Floats [Fin 100, Fin 80]),
                 (''fonte'', Objects [CStr ''leilao'', CStr ''leilao'']),
                 (''preco'', Floats [Fin 120000, NaN]),
                 (''preco_m2'', Floats [Fin 1200, NaN])]\<rparr>"

definition unusable_prepared :: frame where
  "unusable_prepared =
     \<lparr>index = [0, 1],
      columns = [(''preco_inicial'', Floats [Fin 100000, NaN]),
                 (''area'', Floats [NaN, Fin 80]),
                 (''fonte'', Objects [CStr ''leilao'', CStr ''leilao'']),
                 (''preco'', Floats [Fin 100000, NaN]),
                 (''preco_m2'', Floats [NaN, NaN])]\<rparr>"

definition unusable_loaded :: analyzer where
  "unusable_loaded = \<lparr>df_leiloes = Some unusable, df_tradicional = None, df_combined = None\<rparr>"

definition unusable_result :: analyzer where
  "unusable_result =
     \<lparr>df_leiloes = Some unusable_cleaned, df_tradicional = None,
      df_combined = Some unusable_cleaned\<rparr>"

definition three_sources :: analyzer where
  "three_sources =
     \<lparr>df_leiloes = None, df_tradicional = None,
      df_combined =
        Some \<lparr>index = [0, 1, 2],
              columns = [(''preco'', Floats [Fin 200000, Fin 300000, Fin 400000]),
                         (''area'', Floats [Fin 100, Fin 100, Fin 100]),
                         (''preco_m2'', Floats [Fin 2000, Fin 3000, Fin 4000]),
                         (''fonte'', Objects [CStr ''leilao'', CStr ''tradicional'',
                                              CStr ''permuta''])]\<rparr>\<rparr>"

definition other_pair :: analyzer where
  "other_pair =
     \<lparr>df_leiloes = None, df_tradicional = None,
      df_combined =
        Some \<lparr>index = [0, 1],
              columns = [(''preco'', Floats [Fin 200000, Fin 300000]),
                         (''area'', Floats [Fin 100, Fin 100]),
                         (''preco_m2'', Floats [Fin 2000, Fin 3000]),
                         (''fonte'', Objects [CStr ''leilao'', CStr ''vivareal''])]\<rparr>\<rparr>"

definition two_sources :: analyzer where
  "two_sources =
     \<lparr>df_leiloes = None, df_tradicional = None,
      df_combined =
        Some \<lparr>index = [0, 1, 2, 3],
              columns = [(''preco'', Floats [Fin 200000, Fin 400000, Fin 300000, Fin 500000]),
                         (''area'', Floats [Fin 100, Fin 100, Fin 100, Fin 100]),
                         (''preco_m2'', Floats [Fin 2000, Fin 4000, Fin 3000, Fin 5000]),
                         (''fonte'', Objects [CStr ''leilao'', CStr ''leilao'',
                                              CStr ''tradicional'', CStr ''tradicional''])]\<rparr>\<rparr>"

definition two_sources_stats :: "(cell \<times> entry) list" where
  "two_sources_stats =
     [(CStr ''leilao'',
       Source \<lparr>total_imoveis = 2, preco_medio = Fin 300000, preco_mediano = Fin 300000,
               preco_m2_medio = Fin 3000, preco_m2_mediano = Fin 3000,
               area_media = Fin 100\<rparr>),
      (CStr ''tradicional'',
       Source \<lparr>total_imoveis = 2, preco_medio = Fin 400000, preco_mediano = Fin 400000,
               preco_m2_medio = Fin 4000, preco_m2_mediano = Fin 4000,
               area_media = Fin 100\<rparr>),
      (CStr ''comparacao'',
       Comparison \<lparr>diferenca_preco_medio = Fin 25, diferenca_preco_m2_medio = Fin 25\<rparr>)]"

definition three_sources_stats :: "(cell \<times> entry) list" where
  "three_sources_stats =
     [(CStr ''leilao'',
       Source \<lparr>total_imoveis = 1, preco_medio = Fin 200000, preco_mediano = Fin 200000,
               preco_m2_medio = Fin 2000, preco_m2_mediano = Fin 2000,
               area_media = Fin 100\<rparr>),
      (CStr ''tradicional'',
       Source \<lparr>total_imoveis = 1, preco_medio = Fin 300000, preco_mediano = Fin 300000,
               preco_m2_medio = Fin 3000, preco_m2_mediano = Fin 3000,
               area_media = Fin 100\<rparr>),
      (CStr ''permuta'',
       Source \<lparr>total_imoveis = 1, preco_medio = Fin 400000, preco_mediano = Fin 400000,
               preco_m2_medio = Fin 4000, preco_m2_mediano = Fin 4000,
               area_media = Fin 100\<rparr>),
      (CStr ''comparacao'',
       Comparison \<lparr>diferenca_preco_medio = Fin (100 / 3),
                   diferenca_preco_m2_medio = Fin (100 / 3)\<rparr>)]"

definition other_pair_stats :: "(cell \<times> entry) list" where
  "other_pair_stats =
     [(CStr ''leilao'',
       Source \<lparr>total_imoveis = 1, preco_medio = Fin 200000, preco_mediano = Fin 200000,
               preco_m2_medio = Fin 2000, preco_m2_mediano = Fin 2000,
               area_media = Fin 100\<rparr>),
      (CStr ''vivareal'',
       Source \<lparr>total_imoveis = 1, preco_medio = Fin 300000, preco_mediano = Fin 300000,
               preco_m2_medio = Fin 3000, preco_m2_mediano = Fin 3000,
               area_media = Fin 100\<rparr>)]"

section \<open>Example pages and servers\<close>

text \<open>
  A listing page whose first price element holds no number while the second holds the
  price, and whose first area element holds no area while the second does.
\<close>

definition consult_page :: page where
  "consult_page =
     \<lparr>hrefs = [],
      texts = [(''h1'', ''Apartamento''), (''.price'', ''Sob consulta''),
               (''.valor'', ''R$ 450000''), (''.area'', ''Consulte''),
               (''.metragem'', ''85 m'' @ [CHR 0xC2, CHR 0xB2])],
      features = []\<rparr>"

definition lot_page :: page where
  "lot_page =
     \<lparr>hrefs = [],
      texts = [(''h1'', ''Casa''), (''.preco-inicial'', ''R$ 100000''),
               (''.preco-atual'', ''R$ 120000''), (''.area'', ''100 m'')],
      features = []\<rparr>"

definition empty_page :: page where
  "empty_page = \<lparr>hrefs = [], texts = [], features = []\<rparr>"

definition simple_join :: "string \<Rightarrow> string \<Rightarrow> string" where
  "simple_join base href = base @ href"

definition lot_url :: "nat \<Rightarrow> string" where
  "lot_url n = leilao_base @ ''/imovel/'' @ str_nat n"

text \<open>A server that times out on the first request for any URL and answers the next.\<close>

definition flaky :: world where
  "flaky =
     \<lparr>server = (\<lambda>url k. if k = 0 then Raised Timeout else Response 200 lot_page),
      requests = [], now = ''2024-05-01T10:00:00''\<rparr>"

text \<open>
  Two sites. On the first, the index lists two lots and the page of the second lot answers
  503; on the second, the index lists the first lot only.
\<close>

definition site_a :: world where
  "site_a =
     \<lparr>server = (\<lambda>url k.
                  if url = leilao_page_url 1
                  then Response 200 \<lparr>hrefs = [''/imovel/1'', ''/imovel/2''], texts = [],
                                      features = []\<rparr>
                  else if url = lot_url 1 then Response 200 lot_page
                  else Response 503 empty_page),
      requests = [], now = ''2024-05-01T10:00:00''\<rparr>"

definition site_b :: world where
  "site_b =
     \<lparr>server = (\<lambda>url k.
                  if url = leilao_page_url 1
                  then Response 200 \<lparr>hrefs = [''/imovel/1''], texts = [], features = []\<rparr>
                  else if url = lot_url 1 then Response 200 lot_page
                  else Response 503 empty_page),
      requests = [], now = ''2024-05-01T10:00:00''\<rparr>"

definition lot_listing :: leilao_listing where
  "lot_listing =
     \<lparr>l_url = lot_url 1, l_titulo = Some ''Casa'', l_preco_inicial = Some 100000,
      l_preco_atual = Some 120000, l_endereco = None, l_area = Some 100,
      l_tipo_imovel = None, l_data_leilao = None, l_situacao = None, l_descricao = None,
      l_data_coleta = ''2024-05-01T10:00:00''\<rparr>"

section \<open>Row selection\<close>

lemma select_Nil [simp]: "select keep [] = []" "select [] xs = []"
  by (simp_all add: select_def)

lemma select_Cons [simp]:
  "select (k # keep) (x # xs) = (if k then x # select keep xs else select keep xs)"
  by (simp add: select_def)

lemma those_select:
  "those (map f cs) = Some xs \<Longrightarrow> those (map f (select keep cs)) = Some (select keep xs)"
proof (induction cs arbitrary: keep xs)
  case Nil
  then show ?case by simp
next
  case (Cons c cs)
  then show ?case
    by (cases keep) (auto split: option.splits)
qed

lemma as_floats_select_col:
  "as_floats (select_col keep c) = Inr (select keep xs)" if "as_floats c = Inr xs"
proof (cases c)
  case (Floats ys)
  with that show ?thesis by simp
next
  case (Objects cs)
  with that have "those (map cell_num cs) = Some xs"
    by (simp split: option.splits)
  from those_select [OF this, of keep] Objects show ?thesis by simp
qed

lemma select_map_self_filter: "select (map P xs) xs = filter P xs"
  by (induction xs) simp_all

lemma get_col_select_rows:
  "get_col (select_rows keep d) name = map_option (select_col keep) (get_col d name)"
  by (simp add: get_col_def select_rows_def map_of_map)

lemma get_col_set_col:
  "get_col (set_col k c d) name = (if name = k then Some c else get_col d name)"
  by (simp add: get_col_def set_col_def update_conv')

lemma index_select_rows [simp]: "index (select_rows keep d) = select keep (index d)"
  by (simp add: select_rows_def)

lemma index_set_col [simp]: "index (set_col k c d) = index d"
  by (simp add: set_col_def)

section \<open>Outlier rejection\<close>

lemma remove_outliers_values:
  assumes "remove_outliers d = Inr d'" and "get_col d ''preco_m2'' = Some c"
  shows "\<exists>xs. as_floats c = Inr xs \<and>
           index d' =
             select (map (in_bounds (quantile xs (1 / 100)) (quantile xs (99 / 100))) xs)
               (index d) \<and>
           values_of d' ''preco_m2'' =
             filter (in_bounds (quantile xs (1 / 100)) (quantile xs (99 / 100))) xs"
  using assms
  by (auto simp: remove_outliers_def keep_within_def values_of_def get_col_select_rows
      as_floats_select_col
      select_map_self_filter split: sum.splits)

lemma standardize_tipo_keeps:
  assumes "standardize_tipo d = Inr d'"
  shows "index d' = index d \<and> values_of d' ''preco_m2'' = values_of d ''preco_m2''"
  using assms
  by (auto simp: standardize_tipo_def values_of_def get_col_set_col
      split: option.splits sum.splits)

lemma derive_has_preco_m2:
  "derive_preco_m2 d = Inr d' \<Longrightarrow> \<exists>c. get_col d' ''preco_m2'' = Some c"
  by (auto simp: derive_preco_m2_def get_col_set_col split: option.splits sum.splits if_splits)

lemma clean_dataframe_within:
  assumes "clean_dataframe parse df fonte = Inr out"
  shows "\<exists>pre. pre_rejection parse df fonte = Inr pre \<and> within_percentiles pre out"
proof -
  from assms obtain pre d' where pre: "pre_rejection parse df fonte = Inr pre"
    and rej: "remove_outliers pre = Inr d'" and std: "standardize_tipo d' = Inr out"
    by (auto simp: clean_dataframe_def split: sum.splits)
  from pre obtain c where c: "get_col pre ''preco_m2'' = Some c"
    unfolding pre_rejection_def by (blast dest: derive_has_preco_m2)
  from remove_outliers_values [OF rej c] obtain xs where xs: "as_floats c = Inr xs"
    and idx: "index d' =
      select (map (in_bounds (quantile xs (1 / 100)) (quantile xs (99 / 100))) xs) (index pre)"
    and vals: "values_of d' ''preco_m2'' =
      filter (in_bounds (quantile xs (1 / 100)) (quantile xs (99 / 100))) xs"
    by blast
  from c xs have v: "values_of pre ''preco_m2'' = xs"
    by (simp add: values_of_def)
  from standardize_tipo_keeps [OF std] idx vals v
  have "within_percentiles pre out"
    by (simp add: within_percentiles_def Let_def select_map_self_filter list_all_iff)
  with pre show ?thesis by blast
qed

lemma clean_slot_own:
  "clean_slot parse before fonte = Inr after \<Longrightarrow> own_slot parse fonte before after"
  by (cases before) (auto simp: own_slot_def split: sum.splits)

lemma clean_data_slots:
  assumes "clean_data parse s = Inr s'"
  shows "own_slot parse ''leilao'' (df_leiloes s) (df_leiloes s') \<and>
         own_slot parse ''tradicional'' (df_tradicional s) (df_tradicional s')"
  using assms
  by (auto simp: clean_data_def combine_datasets_def Let_def own_slot_def [of _ _ x x for x]
      dest!: clean_slot_own split: sum.splits if_splits)

lemmas frame_eval =
  clean_dataframe_def pre_rejection_def coerce_columns_def numeric_columns_def get_col_def
  set_col_def derive_preco_m2_def series_div_def remove_outliers_def quantile_def dropna_def
  lerp_def num_sub_def select_rows_def in_bounds_def keep_within_def standardize_tipo_def select_preco_def
  inf_signed_def no_parse_def coerced_def

lemma market_frame_cleaned:
  "clean_dataframe no_parse market_frame ''tradicional'' = Inr market_cleaned"
  by (simp add: frame_eval market_frame_def market_cleaned_def)

text \<open>
  C1. Every cleaning pass of one source's frame keeps exactly the rows whose price-per-area
  lies between the 1st and the 99th percentile of that frame's own price-per-area column as
  it stands just before the rejection, so every retained value lies within these bounds;
  and after \<open>clean_data\<close> each source's slot is untouched or is the cleaning of its own
  frame, so no bound comes from the other source or from the combined frame.
\<close>

theorem percentile_bounds_per_source:
  "(clean_dataframe parse df fonte = Inr out \<longrightarrow>
      (case pre_rejection parse df fonte of
         Inl e \<Rightarrow> False
       | Inr pre \<Rightarrow> within_percentiles pre out)) \<and>
   (clean_data parse s = Inr s' \<longrightarrow>
      own_slot parse ''leilao'' (df_leiloes s) (df_leiloes s') \<and>
      own_slot parse ''tradicional'' (df_tradicional s) (df_tradicional s'))"
  using clean_dataframe_within [of parse df fonte out] clean_data_slots [of parse s s']
  by auto

lemma auction_frame_cleaned:
  "clean_dataframe no_parse auction_frame ''leilao'' = Inr auction_cleaned"
  by (simp add: frame_eval auction_frame_def auction_cleaned_def)

lemma loaded_clean_data: "clean_data no_parse loaded = Inr loaded_cleaned"
  by (simp add: clean_data_def loaded_def loaded_cleaned_def auction_frame_cleaned
      market_frame_cleaned combine_datasets_def concat_frames_def unique_def piece_def
      join_pieces_def get_col_def auction_cleaned_def market_cleaned_def)

theorem percentile_bounds_per_source_witness:
  "clean_dataframe no_parse market_frame ''tradicional'' = Inr market_cleaned \<and>
   (case pre_rejection no_parse market_frame ''tradicional'' of
      Inl e \<Rightarrow> False
    | Inr pre \<Rightarrow> within_percentiles pre market_cleaned) \<and>
   clean_data no_parse loaded = Inr loaded_cleaned \<and>
   own_slot no_parse ''leilao'' (df_leiloes loaded) (df_leiloes loaded_cleaned) \<and>
   own_slot no_parse ''tradicional'' (df_tradicional loaded) (df_tradicional loaded_cleaned)"
  using percentile_bounds_per_source
    [of no_parse market_frame "''tradicional''" market_cleaned loaded loaded_cleaned]
  by (simp add: market_frame_cleaned loaded_clean_data)

section \<open>Well-formed frames\<close>

lemma length_select:
  "length (select keep xs) = length (filter (\<lambda>b. b) (take (length xs) keep))"
proof (induction xs arbitrary: keep)
  case Nil
  show ?case by simp
next
  case (Cons x xs)
  show ?case by (cases keep) (simp_all add: Cons.IH)
qed

lemma select_all_kept:
  "list_all (\<lambda>b. b) keep \<Longrightarrow> length xs \<le> length keep \<Longrightarrow> select keep xs = xs"
proof (induction xs arbitrary: keep)
  case Nil
  show ?case by simp
next
  case (Cons x xs)
  then show ?case by (cases keep) simp_all
qed

lemma col_length_select_col:
  "col_length (select_col keep c) = length (filter (\<lambda>b. b) (take (col_length c) keep))"
  by (cases c) (simp_all add: length_select)

lemma select_col_all_kept:
  "list_all (\<lambda>b. b) keep \<Longrightarrow> col_length c \<le> length keep \<Longrightarrow> select_col keep c = c"
  by (cases c) (simp_all add: select_all_kept)

lemma wf_get_col:
  "wf_frame d \<Longrightarrow> get_col d name = Some c \<Longrightarrow> col_length c = length (index d)"
  by (auto simp: wf_frame_def get_col_def list_all_iff dest: map_of_SomeD)

lemma those_length: "those ys = Some zs \<Longrightarrow> length zs = length ys"
  by (induction ys arbitrary: zs) (auto split: option.splits)

lemma as_floats_length: "as_floats c = Inr xs \<Longrightarrow> length xs = col_length c"
  by (cases c) (auto split: option.splits dest: those_length)

lemma wf_select_rows: "wf_frame d \<Longrightarrow> wf_frame (select_rows keep d)"
  by (auto simp: wf_frame_def select_rows_def list_all_iff col_length_select_col length_select)

lemma select_rows_all_kept:
  assumes "wf_frame d" and "list_all (\<lambda>b. b) keep" and "length (index d) \<le> length keep"
  shows "select_rows keep d = d"
proof -
  have "map (\<lambda>(name, c). (name, select_col keep c)) (columns d) = columns d"
    using assms by (auto simp: wf_frame_def list_all_iff select_col_all_kept intro!: map_idI)
  with assms show ?thesis
    by (simp add: select_rows_def select_all_kept)
qed

section \<open>Re-running the outlier rejection\<close>

lemma quartet_first_pass: "remove_outliers quartet = Inr quartet_once"
  by (simp add: frame_eval quartet_def quartet_once_def)

lemma quartet_second_pass: "remove_outliers quartet_once = Inr quartet_twice"
  by (simp add: frame_eval quartet_once_def quartet_twice_def)

text \<open>
  C9, as the code has it. Selecting again with the two bounds that the first pass computed
  removes nothing: on a well-formed frame, the row selection of line 113 applied to the
  result of \<open>remove_outliers\<close> with the first pass's 1st and 99th percentiles gives that
  result back. (The step itself takes no bounds: it computes them anew from the frame it is
  given.)
\<close>

theorem rejection_idempotent_for_fixed_bounds:
  assumes wf: "wf_frame d" and rej: "remove_outliers d = Inr d'"
    and col: "get_col d ''preco_m2'' = Some c"
  shows "keep_within (quantile (values_of d ''preco_m2'') (1 / 100))
           (quantile (values_of d ''preco_m2'') (99 / 100)) (values_of d' ''preco_m2'') d' = d'"
proof -
  from remove_outliers_values [OF rej col] obtain xs where xs: "as_floats c = Inr xs"
    and idx: "index d' =
      select (map (in_bounds (quantile xs (1 / 100)) (quantile xs (99 / 100))) xs) (index d)"
    and vals: "values_of d' ''preco_m2'' =
      filter (in_bounds (quantile xs (1 / 100)) (quantile xs (99 / 100))) xs"
    by blast
  let ?P = "in_bounds (quantile xs (1 / 100)) (quantile xs (99 / 100))"
  from col xs have v: "values_of d ''preco_m2'' = xs"
    by (simp add: values_of_def)
  from rej col xs have d': "d' = select_rows (map ?P xs) d"
    by (simp add: remove_outliers_def keep_within_def)
  from wf have wf': "wf_frame d'"
    unfolding d' by (rule wf_select_rows)
  from wf col xs have len: "length (index d) = length xs"
    by (simp add: wf_get_col as_floats_length)
  have "length (index d') = length (filter ?P xs)"
    unfolding idx by (simp add: length_select len filter_map comp_def)
  then have "select_rows (map ?P (filter ?P xs)) d' = d'"
    by (intro select_rows_all_kept wf') (simp_all add: list_all_iff)
  then show ?thesis
    by (simp add: keep_within_def v vals)
qed

theorem rejection_idempotent_for_fixed_bounds_witness:
  "wf_frame quartet \<and> remove_outliers quartet = Inr quartet_once \<and>
   get_col quartet ''preco_m2'' = Some (Floats [Fin 1000, Fin 2000, Fin 3000, Fin 4000]) \<and>
   keep_within (quantile (values_of quartet ''preco_m2'') (1 / 100))
     (quantile (values_of quartet ''preco_m2'') (99 / 100))
     (values_of quartet_once ''preco_m2'') quartet_once = quartet_once"
proof -
  have wf: "wf_frame quartet"
    by (simp add: wf_frame_def quartet_def)
  have col: "get_col quartet ''preco_m2'' = Some (Floats [Fin 1000, Fin 2000, Fin 3000, Fin 4000])"
    by (simp add: get_col_def quartet_def)
  from rejection_idempotent_for_fixed_bounds [OF wf quartet_first_pass col] wf col
  show ?thesis
    by (simp add: quartet_first_pass)
qed

text \<open>
  The claim fails for the step as it is coded: of the price-per-area values 1000, 2000, 3000
  and 4000 the first pass keeps 2000 and 3000 (the bounds are 1030 and 3970), and a second
  pass over these two computes the bounds 2010 and 2990 and removes both.
\<close>

theorem rejection_rerun_removes_more:
  "remove_outliers quartet = Inr quartet_once \<and>
   remove_outliers quartet_once = Inr quartet_twice \<and>
   index quartet_once = [1, 2] \<and> index quartet_twice = [] \<and>
   quantile (values_of quartet ''preco_m2'') (1 / 100) = Fin 1030 \<and>
   quantile (values_of quartet ''preco_m2'') (99 / 100) = Fin 3970 \<and>
   quantile (values_of quartet_once ''preco_m2'') (1 / 100) = Fin 2010 \<and>
   quantile (values_of quartet_once ''preco_m2'') (99 / 100) = Fin 2990"
  by (simp add: quartet_first_pass quartet_second_pass)
    (simp add: quartet_def quartet_once_def quartet_twice_def values_of_def frame_eval)

section \<open>Derived price per area\<close>

lemma set_select_subset: "set (select keep ys) \<subseteq> set ys"
  by (auto simp: select_def dest: set_zip_leftD)

lemma select_drops_label:
  "distinct ys \<Longrightarrow> k < length ys \<Longrightarrow> k < length keep \<Longrightarrow> \<not> keep ! k \<Longrightarrow>
   ys ! k \<notin> set (select keep ys)"
proof (induction ys arbitrary: keep k)
  case Nil
  then show ?case by simp
next
  case (Cons y ys)
  then obtain b bs where keep: "keep = b # bs" by (cases keep) auto
  show ?case
  proof (cases k)
    case 0
    with Cons.prems keep set_select_subset [of bs ys] show ?thesis by auto
  next
    case (Suc j)
    with Cons.prems keep have "ys ! j \<notin> set (select bs ys)"
      by (intro Cons.IH) auto
    moreover from Cons.prems Suc have "ys ! j \<noteq> y" by auto
    ultimately show ?thesis using keep Suc by simp
  qed
qed

lemma num_div_NaN [simp]: "num_div x NaN = NaN"
  by (cases x) simp_all

lemma in_bounds_NaN [simp]: "in_bounds q1 q3 NaN = False" "in_bounds NaN q3 x = False"
  by (simp_all add: in_bounds_def)

lemma get_col_coerce_other:
  "name \<notin> set numeric_columns \<Longrightarrow> get_col (coerce_columns parse d) name = get_col d name"
  by (auto simp: coerce_columns_def numeric_columns_def get_col_set_col split: option.splits)

lemma index_coerce [simp]: "index (coerce_columns parse d) = index d"
  by (auto simp: coerce_columns_def numeric_columns_def split: option.splits)

lemma index_select_preco [simp]: "index (select_preco d) = index d"
  by (simp add: select_preco_def)

lemma get_col_select_preco_other:
  "name \<noteq> ''preco'' \<Longrightarrow> get_col (select_preco d) name = get_col d name"
  by (simp add: select_preco_def get_col_set_col)

lemma col_length_to_numeric [simp]: "col_length (to_numeric parse c) = col_length c"
  by (cases c) simp_all

lemma wf_set_col:
  assumes "wf_frame d" and "col_length c = length (index d)"
  shows "wf_frame (set_col name c d)"
proof -
  have "set (AList.update name c al) \<subseteq> insert (name, c) (set al)" for al :: "(string \<times> column) list"
    by (induction al) auto
  with assms show ?thesis
    by (auto simp: wf_frame_def set_col_def list_all_iff)
qed

lemma wf_select_preco: "wf_frame d \<Longrightarrow> wf_frame (select_preco d)"
  unfolding select_preco_def
  by (rule wf_set_col) (auto simp: wf_get_col split: option.splits)

lemma wf_coerce_step:
  "wf_frame d \<Longrightarrow>
   wf_frame (case get_col d name of None \<Rightarrow> d | Some c \<Rightarrow> set_col name (to_numeric parse c) d)"
  by (auto simp: wf_set_col wf_get_col split: option.splits)

lemma wf_coerce_fold:
  "wf_frame d \<Longrightarrow>
   wf_frame (foldl (\<lambda>d name. case get_col d name of
                                  None \<Rightarrow> d
                                | Some c \<Rightarrow> set_col name (to_numeric parse c) d) d names)"
  by (induction names arbitrary: d) (simp_all add: wf_coerce_step)

lemma wf_coerce: "wf_frame d \<Longrightarrow> wf_frame (coerce_columns parse d)"
  unfolding coerce_columns_def by (rule wf_coerce_fold)

lemma derives_coerced:
  "derives_preco_m2 (coerced parse df fonte) = derives_preco_m2 df"
  by (simp add: derives_preco_m2_def coerced_def get_col_coerce_other get_col_select_preco_other
      numeric_columns_def)

lemma derived_columns:
  assumes pre: "pre_rejection parse df fonte = Inr pre" and der: "derives_preco_m2 df"
  obtains p a ps as where
    "get_col (coerced parse df fonte) ''preco'' = Some p" and "as_floats p = Inr ps" and
    "get_col (coerced parse df fonte) ''area'' = Some a" and "as_floats a = Inr as" and
    "pre = set_col ''preco_m2'' (Floats (map (\<lambda>(x, y). num_div x y) (zip ps as)))
             (coerced parse df fonte)"
proof -
  from der have "derives_preco_m2 (coerced parse df fonte)"
    by (simp add: derives_coerced)
  with pre that show ?thesis
    unfolding pre_rejection_def
    by (auto simp: derive_preco_m2_def derives_preco_m2_def series_div_def
        split: option.splits sum.splits if_splits)
qed

lemma derived_values:
  assumes pre: "pre_rejection parse df fonte = Inr pre" and der: "derives_preco_m2 df"
  shows "values_of pre ''preco_m2'' =
           map (\<lambda>(x, y). num_div x y) (zip (values_of pre ''preco'') (values_of pre ''area''))"
proof (rule derived_columns [OF pre der])
  fix p a ps as
  assume "get_col (coerced parse df fonte) ''preco'' = Some p" and "as_floats p = Inr ps"
    and "get_col (coerced parse df fonte) ''area'' = Some a" and "as_floats a = Inr as"
    and eq: "pre = set_col ''preco_m2'' (Floats (map (\<lambda>(x, y). num_div x y) (zip ps as)))
             (coerced parse df fonte)"
  then show ?thesis
    unfolding eq by (simp add: values_of_def get_col_set_col)
qed

lemma derived_lengths:
  assumes pre: "pre_rejection parse df fonte = Inr pre" and der: "derives_preco_m2 df"
    and wf: "wf_frame df"
  shows "index pre = index df \<and> length (values_of pre ''preco'') = length (index df) \<and>
         length (values_of pre ''area'') = length (index df)"
proof (rule derived_columns [OF pre der])
  fix p a ps as
  assume p: "get_col (coerced parse df fonte) ''preco'' = Some p" "as_floats p = Inr ps"
    and a: "get_col (coerced parse df fonte) ''area'' = Some a" "as_floats a = Inr as"
    and eq: "pre = set_col ''preco_m2'' (Floats (map (\<lambda>(x, y). num_div x y) (zip ps as)))
             (coerced parse df fonte)"
  from wf have wfc: "wf_frame (coerced parse df fonte)"
    by (simp add: coerced_def wf_coerce wf_select_preco)
  have idx: "index (coerced parse df fonte) = index df"
    by (simp add: coerced_def)
  from wf_get_col [OF wfc p(1)] as_floats_length [OF p(2)] idx
  have "length ps = length (index df)" by simp
  moreover from wf_get_col [OF wfc a(1)] as_floats_length [OF a(2)] idx
  have "length as = length (index df)" by simp
  ultimately show ?thesis
    unfolding eq using p a idx by (simp add: values_of_def get_col_set_col)
qed

lemma odd_areas_prepared:
  "pre_rejection no_parse odd_areas ''tradicional'' =
     Inr (set_col ''preco_m2'' (Floats [Fin (- 3000), Fin (- 2000), Fin (- 1000), Fin 1000, NaN])
            odd_areas)"
  by (simp add: frame_eval odd_areas_def)

lemma odd_areas_clean:
  "clean_dataframe no_parse odd_areas ''tradicional'' = Inr odd_areas_cleaned"
  by (simp add: frame_eval odd_areas_def odd_areas_cleaned_def)

text \<open>
  C2, as the code has it. When the cleaner derives the price per area, a listing whose area
  is missing after the coercion gets a missing price per area, and the outlier filter then
  drops it: its label is not in the cleaned frame, so it enters no statistics at all. (A
  listing whose area is present gets the quotient of its price by its area, whatever the
  sign of the area.)
\<close>

theorem missing_area_listing_dropped:
  assumes clean: "clean_dataframe parse df fonte = Inr out"
    and pre: "pre_rejection parse df fonte = Inr pre"
    and der: "derives_preco_m2 df"
    and wf: "wf_frame df" and dist: "distinct (index df)"
    and k: "k < length (index df)"
    and area: "values_of pre ''area'' ! k = NaN"
  shows "values_of pre ''preco_m2'' ! k = NaN \<and> index df ! k \<notin> set (index out)"
proof -
  let ?xs = "values_of pre ''preco_m2''"
  from derived_lengths [OF pre der wf] have idx: "index pre = index df"
    and lp: "length (values_of pre ''preco'') = length (index df)"
    and la: "length (values_of pre ''area'') = length (index df)"
    by simp_all
  from derived_values [OF pre der] lp la k area have nan: "?xs ! k = NaN"
    and len: "length ?xs = length (index df)"
    by simp_all
  from clean_dataframe_within [OF clean] pre
  have "index out =
      select (map (in_bounds (quantile ?xs (1 / 100)) (quantile ?xs (99 / 100))) ?xs) (index pre)"
    by (simp add: within_percentiles_def Let_def)
  moreover have "index df ! k \<notin>
      set (select (map (in_bounds (quantile ?xs (1 / 100)) (quantile ?xs (99 / 100))) ?xs)
             (index df))"
    using dist k len nan by (intro select_drops_label) simp_all
  ultimately show ?thesis
    using nan idx by simp
qed

theorem missing_area_listing_dropped_witness:
  "clean_dataframe no_parse odd_areas ''tradicional'' = Inr odd_areas_cleaned \<and>
   derives_preco_m2 odd_areas \<and> wf_frame odd_areas \<and> distinct (index odd_areas) \<and>
   values_of (set_col ''preco_m2''
                (Floats [Fin (- 3000), Fin (- 2000), Fin (- 1000), Fin 1000, NaN]) odd_areas)
     ''preco_m2'' ! 4 = NaN \<and>
   index odd_areas ! 4 \<notin> set (index odd_areas_cleaned)"
proof -
  have der: "derives_preco_m2 odd_areas"
    by (simp add: derives_preco_m2_def get_col_def odd_areas_def)
  have wf: "wf_frame odd_areas"
    by (simp add: wf_frame_def odd_areas_def)
  have dist: "distinct (index odd_areas)"
    by (simp add: odd_areas_def)
  have k: "4 < length (index odd_areas)"
    by (simp add: odd_areas_def)
  have area: "values_of (set_col ''preco_m2''
      (Floats [Fin (- 3000), Fin (- 2000), Fin (- 1000), Fin 1000, NaN]) odd_areas) ''area'' ! 4 = NaN"
    by (simp add: values_of_def get_col_def set_col_def odd_areas_def)
  from missing_area_listing_dropped [OF odd_areas_clean odd_areas_prepared der wf dist k area]
    der wf dist
  show ?thesis
    by (simp add: odd_areas_clean)
qed

text \<open>
  The claim fails on the code twice over. In a frame of five listings, the one with no area
  (label 4) is not in the cleaned frame, and the two retained listings (labels 1 and 2) have
  the area -100 and carry the price per area -2000 and -1000.
\<close>

theorem bad_area_listings_not_guarded:
  "clean_dataframe no_parse odd_areas ''tradicional'' = Inr odd_areas_cleaned \<and>
   values_of odd_areas ''area'' = [Fin (- 100), Fin (- 100), Fin (- 100), Fin 100, NaN] \<and>
   index odd_areas_cleaned = [1, 2] \<and>
   values_of odd_areas_cleaned ''area'' = [Fin (- 100), Fin (- 100)] \<and>
   values_of odd_areas_cleaned ''preco_m2'' = [Fin (- 2000), Fin (- 1000)]"
  by (simp add: odd_areas_clean)
    (simp add: odd_areas_def odd_areas_cleaned_def values_of_def get_col_def)

section \<open>The canonical price of an auction listing\<close>

lemma auction_frame_prepared:
  "pre_rejection no_parse auction_frame ''leilao'' = Inr auction_prepared"
  by (simp add: frame_eval auction_frame_def auction_prepared_def)

text \<open>
  C3 fails on the code. In a batch of two auction listings, the first with the initial price
  100000 and the current price 120000, the second with the initial price 80000 and no
  current price, the column \<open>preco_atual\<close> exists, so line 97 takes it whole: the
  canonical price of the second listing is missing, not its initial price 80000, and the
  listing is then dropped from the cleaned frame.
\<close>

theorem current_price_column_shadows_initial:
  "values_of auction_frame ''preco_inicial'' = [Fin 100000, Fin 80000] \<and>
   values_of auction_frame ''preco_atual'' = [Fin 120000, NaN] \<and>
   pre_rejection no_parse auction_frame ''leilao'' = Inr auction_prepared \<and>
   values_of auction_prepared ''preco'' = [Fin 120000, NaN] \<and>
   clean_dataframe no_parse auction_frame ''leilao'' = Inr auction_cleaned \<and>
   index auction_cleaned = [0]"
  by (simp add: auction_frame_prepared auction_frame_cleaned)
    (simp add: auction_frame_def auction_prepared_def auction_cleaned_def values_of_def
      get_col_def)

section \<open>Frames with no usable listing\<close>

lemma quantile_all_missing: "list_all (\<lambda>x. x = NaN) xs \<Longrightarrow> quantile xs q = NaN"
proof -
  assume "list_all (\<lambda>x. x = NaN) xs"
  then have "dropna xs = []"
    by (simp add: dropna_def list_all_iff filter_empty_conv)
  then show ?thesis
    by (simp add: quantile_def)
qed

lemma select_none: "select (map (\<lambda>x. False) xs) ys = []"
proof (induction xs arbitrary: ys)
  case Nil
  show ?case by simp
next
  case (Cons x xs)
  show ?case by (cases ys) (simp_all add: Cons.IH)
qed

lemma in_bounds_missing_bound: "in_bounds NaN q3 = (\<lambda>x. False)"
  by (rule ext) simp

lemma unusable_all_missing:
  assumes "filter (\<lambda>(p, a). p \<noteq> NaN \<and> a \<noteq> NaN) (zip ps as) = []"
  shows "list_all (\<lambda>x. x = NaN) (map (\<lambda>(x, y). num_div x y) (zip ps as))"
proof -
  have "num_div p a = NaN" if "(p, a) \<in> set (zip ps as)" for p a
  proof -
    from assms that have "p = NaN \<or> a = NaN"
      by (auto simp: filter_empty_conv)
    then show ?thesis by auto
  qed
  then show ?thesis
    by (auto simp: list_all_iff)
qed

lemma no_usable_rows_empty:
  assumes der: "derives_preco_m2 df" and pre: "pre_rejection parse df fonte = Inr pre"
    and none: "usable_rows pre = 0" and clean: "clean_dataframe parse df fonte = Inr out"
  shows "index out = []"
proof -
  let ?xs = "values_of pre ''preco_m2''"
  from none derived_values [OF pre der] have "list_all (\<lambda>x. x = NaN) ?xs"
    by (simp add: usable_rows_def unusable_all_missing)
  then have "quantile ?xs (1 / 100) = NaN"
    by (rule quantile_all_missing)
  moreover from clean_dataframe_within [OF clean] pre
  have "index out =
      select (map (in_bounds (quantile ?xs (1 / 100)) (quantile ?xs (99 / 100))) ?xs) (index pre)"
    by (simp add: within_percentiles_def Let_def)
  ultimately show ?thesis
    by (simp add: in_bounds_missing_bound select_none)
qed

lemma clean_data_returns: "\<not> isl (clean_data parse s)"
  by (simp add: clean_data_def split: sum.splits)

lemma unusable_prepared_eq: "pre_rejection no_parse unusable ''leilao'' = Inr unusable_prepared"
  by (simp add: frame_eval unusable_def unusable_prepared_def)

lemma unusable_clean: "clean_dataframe no_parse unusable ''leilao'' = Inr unusable_cleaned"
  by (simp add: frame_eval unusable_def unusable_cleaned_def)

lemma unusable_clean_data: "clean_data no_parse unusable_loaded = Inr unusable_result"
  by (simp add: clean_data_def unusable_loaded_def unusable_result_def unusable_clean
      combine_datasets_def concat_frames_def unique_def piece_def join_pieces_def get_col_def
      unusable_cleaned_def)

lemma unusable_no_usable_rows: "usable_rows unusable_prepared = 0"
  by (simp add: usable_rows_def unusable_prepared_def values_of_def get_col_def)

text \<open>
  C4, as the code has it. \<open>clean_data\<close> raises nothing to its caller, whatever the
  analyser holds: the handler of line 87 catches every exception of the body. When no
  listing has both a usable price and a usable area after the coercion, and the cleaner
  derives the price per area, a cleaning that completes yields a frame with no row.
\<close>

theorem clean_data_never_raises:
  "\<not> isl (clean_data parse s) \<and>
   (derives_preco_m2 df \<and> pre_rejection parse df fonte = Inr pre \<and> usable_rows pre = 0 \<and>
    clean_dataframe parse df fonte = Inr out \<longrightarrow> index out = [])"
  using clean_data_returns [of parse s] no_usable_rows_empty [of df parse fonte pre out]
  by blast

theorem clean_data_never_raises_witness:
  "\<not> isl (clean_data no_parse unusable_loaded) \<and>
   derives_preco_m2 unusable \<and>
   pre_rejection no_parse unusable ''leilao'' = Inr unusable_prepared \<and>
   usable_rows unusable_prepared = 0 \<and>
   clean_dataframe no_parse unusable ''leilao'' = Inr unusable_cleaned \<and>
   index unusable_cleaned = []"
proof -
  have der: "derives_preco_m2 unusable"
    by (simp add: derives_preco_m2_def get_col_def unusable_def)
  from clean_data_never_raises
    [of no_parse unusable_loaded unusable "''leilao''" unusable_prepared unusable_cleaned]
    der
  show ?thesis
    by (simp add: unusable_prepared_eq unusable_clean unusable_no_usable_rows)
qed

text \<open>
  The claim fails on the code: for an auction frame of two listings, one with no area and
  one with no price, \<open>clean_data\<close> returns normally, and the cleaned frame is empty.
\<close>

theorem no_insufficient_data_error:
  "pre_rejection no_parse unusable ''leilao'' = Inr unusable_prepared \<and>
   usable_rows unusable_prepared = 0 \<and>
   clean_data no_parse unusable_loaded = Inr unusable_result \<and>
   df_leiloes unusable_result = Some unusable_cleaned \<and>
   index unusable_cleaned = []"
  by (simp add: unusable_prepared_eq unusable_no_usable_rows unusable_clean_data)
    (simp add: unusable_result_def unusable_cleaned_def)

section \<open>The comparison section of the statistics\<close>

lemma set_unique_fold:
  "set (foldl (\<lambda>acc x. if x \<in> set acc then acc else acc @ [x]) acc xs) = set acc \<union> set xs"
  by (induction xs arbitrary: acc) auto

lemma set_unique [simp]: "set (unique xs) = set xs"
  by (simp add: unique_def set_unique_fold)

lemma keys_update: "fst ` set (AList.update k v al) = insert k (fst ` set al)"
  by (induction al) auto

lemma stats_loop_keys:
  "stats_loop df fcol ks acc = Inr ps \<Longrightarrow> fst ` set ps = fst ` set acc \<union> set ks"
proof (induction ks arbitrary: acc)
  case Nil
  then show ?case by simp
next
  case (Cons k ks)
  from Cons.prems obtain st where
    "stats_loop df fcol ks (AList.update k st acc) = Inr ps"
    by (auto split: sum.splits)
  from Cons.IH [OF this] show ?case
    by (simp add: keys_update)
qed

lemma source_statistics_keys:
  assumes "source_statistics df = Inr ps"
  shows "fst ` set ps = set (fonte_labels df)"
proof (cases "get_col df ''fonte''")
  case None
  with assms show ?thesis by (simp add: source_statistics_def)
next
  case (Some c)
  with assms have "stats_loop df (column_cells c) (unique (column_cells c)) [] = Inr ps"
    by (simp add: source_statistics_def)
  from stats_loop_keys [OF this] Some show ?thesis
    by (simp add: fonte_labels_def)
qed

lemma map_of_sources:
  "map_of (map (\<lambda>(k, v). (k, Source v)) ps) k = map_option Source (map_of ps k)"
  by (simp add: map_of_map)

lemma map_of_add_comparison_other:
  "k \<noteq> CStr ''comparacao'' \<Longrightarrow>
   map_of (add_comparison ps) k = map_option Source (map_of ps k)"
  by (simp add: add_comparison_def Let_def update_conv' map_of_sources split: option.splits)

lemma source_of_add_comparison:
  "name \<noteq> ''comparacao'' \<Longrightarrow> source_of (add_comparison ps) name = map_of ps (CStr name)"
  by (cases "map_of ps (CStr name)") (simp_all add: source_of_def map_of_add_comparison_other)

lemma comparison_of_add_comparison:
  "comparison_of (add_comparison ps) =
     (case map_of ps (CStr ''leilao'') of
        None \<Rightarrow> None
      | Some l \<Rightarrow>
          (case map_of ps (CStr ''tradicional'') of
             None \<Rightarrow> None
           | Some t \<Rightarrow>
               Some \<lparr>diferenca_preco_medio = pct_diff (preco_medio t) (preco_medio l),
                     diferenca_preco_m2_medio =
                       pct_diff (preco_m2_medio t) (preco_m2_medio l)\<rparr>))"
proof -
  have "(case map_option Source x of None \<Rightarrow> None | Some (Source st) \<Rightarrow> None
         | Some (Comparison c) \<Rightarrow> Some c) = None" for x :: "source_stats option"
    by (cases x) simp_all
  then show ?thesis
    by (simp add: comparison_of_def add_comparison_def Let_def update_conv' map_of_sources
        split: option.splits)
qed

lemma source_present_iff:
  assumes "source_statistics df = Inr ps" and "name \<noteq> ''comparacao''"
  shows "source_of (add_comparison ps) name \<noteq> None \<longleftrightarrow> CStr name \<in> set (fonte_labels df)"
proof -
  have "map_of ps (CStr name) \<noteq> None \<longleftrightarrow> CStr name \<in> fst ` set ps"
    by (simp add: map_of_eq_None_iff)
  with assms show ?thesis
    by (simp add: source_of_add_comparison source_statistics_keys)
qed

lemma generate_statistics_SomeD:
  assumes "generate_statistics written s = Some stats" and "df_combined s = Some df"
  obtains ps where "source_statistics df = Inr ps" and "stats = add_comparison ps"
  using assms by (auto simp: generate_statistics_def split: sum.splits if_splits)

lemma stats_loop_entries:
  assumes "stats_loop df fcol ks acc = Inr ps"
    and "\<And>k st. map_of acc k = Some st \<Longrightarrow>
           stats_of_source (select_rows (map (\<lambda>c. cell_eq c k) fcol) df) = Inr st"
    and "map_of ps k = Some st"
  shows "stats_of_source (select_rows (map (\<lambda>c. cell_eq c k) fcol) df) = Inr st"
  using assms
proof (induction ks arbitrary: acc)
  case Nil
  then show ?case by simp
next
  case (Cons j ks)
  from Cons.prems(1) obtain sj where
    sj: "stats_of_source (select_rows (map (\<lambda>c. cell_eq c j) fcol) df) = Inr sj"
    and rest: "stats_loop df fcol ks (AList.update j sj acc) = Inr ps"
    by (auto split: sum.splits)
  show ?case
  proof (rule Cons.IH [OF rest _ Cons.prems(3)])
    fix k' st'
    assume "map_of (AList.update j sj acc) k' = Some st'"
    with sj Cons.prems(2) [of k' st']
    show "stats_of_source (select_rows (map (\<lambda>c. cell_eq c k') fcol) df) = Inr st'"
      by (auto simp: update_conv' split: if_splits)
  qed
qed

lemma source_statistics_entries:
  assumes "source_statistics df = Inr ps" and "map_of ps (CStr name) = Some st"
  shows "stats_of_source (source_rows df name) = Inr st"
proof (cases "get_col df ''fonte''")
  case None
  with assms show ?thesis by (simp add: source_statistics_def)
next
  case (Some c)
  with assms have "stats_loop df (column_cells c) (unique (column_cells c)) [] = Inr ps"
    by (simp add: source_statistics_def)
  from stats_loop_entries [OF this _ assms(2)] Some show ?thesis
    by (simp add: source_rows_def fonte_labels_def)
qed

lemma stats_of_source_means:
  assumes "stats_of_source d = Inr st"
  shows "series_stat mean d ''preco'' = Inr (preco_medio st) \<and>
         series_stat mean d ''preco_m2'' = Inr (preco_m2_medio st)"
  using assms
  by (auto simp: stats_of_source_def bind_err_def split: sum.splits)

lemma two_sources_statistics: "generate_statistics True two_sources = Some two_sources_stats"
  by (simp add: generate_statistics_def two_sources_def two_sources_stats_def
      source_statistics_def get_col_def unique_def select_rows_def stats_of_source_def
      bind_err_def series_stat_def mean_def median_def dropna_def add_comparison_def
      pct_diff_def num_sub_def)

lemma three_sources_statistics:
  "generate_statistics True three_sources = Some three_sources_stats"
  by (simp add: generate_statistics_def three_sources_def three_sources_stats_def
      source_statistics_def get_col_def unique_def select_rows_def stats_of_source_def
      bind_err_def series_stat_def mean_def median_def dropna_def add_comparison_def
      pct_diff_def num_sub_def)

lemma other_pair_statistics: "generate_statistics True other_pair = Some other_pair_stats"
  by (simp add: generate_statistics_def other_pair_def other_pair_stats_def
      source_statistics_def get_col_def unique_def select_rows_def stats_of_source_def
      bind_err_def series_stat_def mean_def median_def dropna_def add_comparison_def
      pct_diff_def num_sub_def)

text \<open>
  C5, as the code has it. In the statistics that \<open>generate_statistics\<close> returns, a source
  has an entry exactly when its label occurs in the column \<open>fonte\<close>; the entry's means are
  the means over that source's rows; and the comparison section is present exactly when
  both the entry \<open>leilao\<close> and the entry \<open>tradicional\<close> are, whatever other sources
  there are. Its two fields are (traditional mean - auction mean) / traditional mean * 100,
  of the price and of the price per area.
\<close>

theorem comparison_gated_by_names:
  assumes gen: "generate_statistics written s = Some stats" and df: "df_combined s = Some df"
  shows "(source_of stats ''leilao'' \<noteq> None \<longleftrightarrow> CStr ''leilao'' \<in> set (fonte_labels df)) \<and>
    (source_of stats ''tradicional'' \<noteq> None \<longleftrightarrow>
       CStr ''tradicional'' \<in> set (fonte_labels df)) \<and>
    (case source_of stats ''leilao'' of
       None \<Rightarrow> comparison_of stats = None
     | Some l \<Rightarrow>
         series_stat mean (source_rows df ''leilao'') ''preco_m2'' = Inr (preco_m2_medio l) \<and>
         (case source_of stats ''tradicional'' of
            None \<Rightarrow> comparison_of stats = None
          | Some t \<Rightarrow>
              series_stat mean (source_rows df ''tradicional'') ''preco_m2'' =
                Inr (preco_m2_medio t) \<and>
              comparison_of stats =
                Some \<lparr>diferenca_preco_medio =
                        num_mul (num_div (num_sub (preco_medio t) (preco_medio l))
                                   (preco_medio t)) (Fin 100),
                      diferenca_preco_m2_medio =
                        num_mul (num_div (num_sub (preco_m2_medio t) (preco_m2_medio l))
                                   (preco_m2_medio t)) (Fin 100)\<rparr>))"
proof (rule generate_statistics_SomeD [OF gen df])
  fix ps
  assume ps: "source_statistics df = Inr ps" and stats: "stats = add_comparison ps"
  have l: "source_of stats ''leilao'' = map_of ps (CStr ''leilao'')"
    and t: "source_of stats ''tradicional'' = map_of ps (CStr ''tradicional'')"
    by (simp_all add: stats source_of_add_comparison)
  have present: "(source_of stats ''leilao'' \<noteq> None \<longleftrightarrow> CStr ''leilao'' \<in> set (fonte_labels df))"
    "(source_of stats ''tradicional'' \<noteq> None \<longleftrightarrow> CStr ''tradicional'' \<in> set (fonte_labels df))"
    using source_present_iff [OF ps, of "''leilao''"] source_present_iff [OF ps, of "''tradicional''"]
    by (simp_all add: stats)
  have means: "series_stat mean (source_rows df name) ''preco_m2'' = Inr (preco_m2_medio st)"
    if "map_of ps (CStr name) = Some st" for name st
    using stats_of_source_means [OF source_statistics_entries [OF ps that]] by simp
  have "case map_of ps (CStr ''leilao'') of
       None \<Rightarrow> comparison_of stats = None
     | Some l \<Rightarrow>
         series_stat mean (source_rows df ''leilao'') ''preco_m2'' = Inr (preco_m2_medio l) \<and>
         (case map_of ps (CStr ''tradicional'') of
            None \<Rightarrow> comparison_of stats = None
          | Some t \<Rightarrow>
              series_stat mean (source_rows df ''tradicional'') ''preco_m2'' =
                Inr (preco_m2_medio t) \<and>
              comparison_of stats =
                Some \<lparr>diferenca_preco_medio =
                        num_mul (num_div (num_sub (preco_medio t) (preco_medio l))
                                   (preco_medio t)) (Fin 100),
                      diferenca_preco_m2_medio =
                        num_mul (num_div (num_sub (preco_m2_medio t) (preco_m2_medio l))
                                   (preco_m2_medio t)) (Fin 100)\<rparr>)"
    by (simp add: stats comparison_of_add_comparison means pct_diff_def split: option.splits)
  with present [unfolded l t] show ?thesis
    unfolding l t by blast
qed

theorem comparison_gated_by_names_witness:
  "generate_statistics True two_sources = Some two_sources_stats \<and>
   source_of two_sources_stats ''leilao'' \<noteq> None \<and>
   source_of two_sources_stats ''tradicional'' \<noteq> None \<and>
   map_option preco_m2_medio (source_of two_sources_stats ''leilao'') = Some (Fin 3000) \<and>
   map_option preco_m2_medio (source_of two_sources_stats ''tradicional'') = Some (Fin 4000) \<and>
   map_option diferenca_preco_m2_medio (comparison_of two_sources_stats) = Some (Fin 25)"
proof -
  obtain df where df: "df_combined two_sources = Some df"
    by (simp add: two_sources_def)
  from comparison_gated_by_names [OF two_sources_statistics df]
  have "comparison_of two_sources_stats =
      (case source_of two_sources_stats ''leilao'' of
         None \<Rightarrow> None
       | Some l \<Rightarrow>
           (case source_of two_sources_stats ''tradicional'' of
              None \<Rightarrow> None
            | Some t \<Rightarrow>
                Some \<lparr>diferenca_preco_medio =
                        num_mul (num_div (num_sub (preco_medio t) (preco_medio l))
                                   (preco_medio t)) (Fin 100),
                      diferenca_preco_m2_medio =
                        num_mul (num_div (num_sub (preco_m2_medio t) (preco_m2_medio l))
                                   (preco_m2_medio t)) (Fin 100)\<rparr>))"
    by (auto split: option.splits)
  moreover have "source_of two_sources_stats ''leilao'' =
      Some \<lparr>total_imoveis = 2, preco_medio = Fin 300000, preco_mediano = Fin 300000,
            preco_m2_medio = Fin 3000, preco_m2_mediano = Fin 3000, area_media = Fin 100\<rparr>"
    and "source_of two_sources_stats ''tradicional'' =
      Some \<lparr>total_imoveis = 2, preco_medio = Fin 400000, preco_mediano = Fin 400000,
            preco_m2_medio = Fin 4000, preco_m2_mediano = Fin 4000, area_media = Fin 100\<rparr>"
    by (simp_all add: source_of_def two_sources_stats_def)
  ultimately show ?thesis
    by (simp add: two_sources_statistics num_sub_def)
qed

text \<open>
  The claim fails on the code in both directions: with the three sources \<open>leilao\<close>,
  \<open>tradicional\<close> and \<open>permuta\<close> the comparison section is produced, and with the two
  sources \<open>leilao\<close> and \<open>vivareal\<close> it is not.
\<close>

theorem comparison_not_gated_by_count:
  "generate_statistics True three_sources = Some three_sources_stats \<and>
   map fst three_sources_stats =
     [CStr ''leilao'', CStr ''tradicional'', CStr ''permuta'', CStr ''comparacao''] \<and>
   comparison_of three_sources_stats =
     Some \<lparr>diferenca_preco_medio = Fin (100 / 3), diferenca_preco_m2_medio = Fin (100 / 3)\<rparr> \<and>
   generate_statistics True other_pair = Some other_pair_stats \<and>
   map fst other_pair_stats = [CStr ''leilao'', CStr ''vivareal''] \<and>
   comparison_of other_pair_stats = None"
  by (simp add: three_sources_statistics other_pair_statistics)
    (simp add: three_sources_stats_def other_pair_stats_def comparison_of_def)

section \<open>Selector chains\<close>

text \<open>
  C6 fails on the code for the price. On a page whose \<open>.price\<close> element reads
  \<open>Sob consulta\<close> and whose \<open>.valor\<close> element reads \<open>R$ 450000\<close>, the price chain
  returns at the first element and yields no price, although the second rule alone yields
  450000. The area chain of the same scraper does go on: its first element reads
  \<open>Consulte\<close>, and the area 85 comes from the second.
\<close>

theorem price_chain_returns_at_first_element:
  "safe_extract consult_page ''.price'' = Some ''Sob consulta'' \<and>
   price_chain consult_page [''.valor'', ''[data-testid=\"price\"]'', ''.js-price''] =
     Some 450000 \<and>
   extract_price_vivareal consult_page = None \<and>
   safe_extract consult_page ''.area'' = Some ''Consulte'' \<and>
   extract_area_vivareal consult_page = Some 85"
  by (simp add: consult_page_def safe_extract_def extract_price_vivareal_def price_selectors_def
      extract_area_vivareal_def area_selectors_def sanitize_def is_digit_def py_float_def
      nat_of_digits_def digit_val_def area_match_at_def is_space_def)

section \<open>Requests\<close>

lemma requests_fetch_page: "requests (snd (fetch_page url w)) = requests w @ [url]"
  by (simp add: fetch_page_def http_get_def split: reply.splits)

lemma requests_extract_leilao:
  "requests (snd (extract_imovel_data_leilao url w)) = requests w @ [url]"
  using requests_fetch_page [of url w]
  by (auto simp: extract_imovel_data_leilao_def split: prod.splits sum.splits)

lemma requests_extract_vivareal:
  "requests (snd (extract_imovel_data_vivareal url w)) = requests w @ [url]"
  using requests_fetch_page [of url w]
  by (auto simp: extract_imovel_data_vivareal_def split: prod.splits sum.splits)

lemma requests_visit_pages:
  "requests (snd (visit_pages join base us urls w)) = requests w @ us"
proof (induction us arbitrary: urls w)
  case Nil
  show ?case by simp
next
  case (Cons u us)
  obtain r w' where f: "fetch_page u w = (r, w')"
    by (cases "fetch_page u w")
  with requests_fetch_page [of u w] have "requests w' = requests w @ [u]"
    by simp
  with f show ?case
    by (cases r) (simp_all add: Cons.IH)
qed

lemma failed_fetch_gives_none:
  assumes "isl (fst (fetch_page url w))"
  shows "fst (extract_imovel_data_leilao url w) = None \<and>
         fst (extract_imovel_data_vivareal url w) = None"
  using assms
  by (auto simp: extract_imovel_data_leilao_def extract_imovel_data_vivareal_def
      split: prod.splits sum.splits)

lemmas flaky_eval =
  flaky_def lot_url_def leilao_base_def str_nat.simps extract_imovel_data_leilao_def
  fetch_page_def http_get_def

text \<open>
  C7, as the code has it. Every fetch is one request, whatever the reply: the extraction of
  a listing asks for its URL once, the URL collectors ask for each page once, and a fetch
  that fails, transient or not, is reported at once (the extraction returns None) with no
  second request.
\<close>

theorem every_fetch_is_one_request:
  "requests (snd (extract_imovel_data_leilao url w)) = requests w @ [url] \<and>
   requests (snd (extract_imovel_data_vivareal url w)) = requests w @ [url] \<and>
   requests (snd (get_imoveis_urls join max_pages w)) =
     requests w @ map leilao_page_url [1 .. max_pages] \<and>
   requests (snd (search_imoveis join cidade tipo max_pages w)) =
     requests w @ map (search_url cidade tipo) [1 .. max_pages] \<and>
   (isl (fst (fetch_page url w)) \<longrightarrow>
      fst (extract_imovel_data_leilao url w) = None \<and>
      fst (extract_imovel_data_vivareal url w) = None)"
  using failed_fetch_gives_none [of url w]
  by (simp add: requests_extract_leilao requests_extract_vivareal requests_visit_pages
      get_imoveis_urls_def search_imoveis_def)

theorem every_fetch_is_one_request_witness:
  "isl (fst (fetch_page (lot_url 1) flaky)) \<and>
   fst (extract_imovel_data_leilao (lot_url 1) flaky) = None \<and>
   requests (snd (extract_imovel_data_leilao (lot_url 1) flaky)) = [lot_url 1]"
proof -
  have failed: "isl (fst (fetch_page (lot_url 1) flaky))"
    by (simp add: flaky_eval)
  have "requests flaky = []"
    by (simp add: flaky_def)
  with every_fetch_is_one_request [of "lot_url 1" flaky] failed show ?thesis
    by simp
qed

text \<open>
  The claim fails on the code: against a server that times out on the first request for a
  URL and would answer the second, the extraction makes the one request and reports the
  failure.
\<close>

theorem transient_failure_not_retried:
  "server flaky (lot_url 1) 0 = Raised Timeout \<and>
   server flaky (lot_url 1) 1 = Response 200 lot_page \<and>
   fst (extract_imovel_data_leilao (lot_url 1) flaky) = None \<and>
   requests (snd (extract_imovel_data_leilao (lot_url 1) flaky)) = [lot_url 1]"
  by (simp add: flaky_eval)

section \<open>The extraction loop\<close>

lemma extract_each_data:
  "data (fst (extract_each ex us (s, w))) = data s @ extracted ex us w"
proof (induction us arbitrary: s w)
  case Nil
  show ?case by simp
next
  case (Cons u us)
  show ?case
    by (cases "ex u w") (simp add: Cons.IH split: option.splits)
qed

lemma length_extracted: "length (extracted ex us w) \<le> length us"
proof (induction us arbitrary: w)
  case Nil
  show ?case by simp
next
  case (Cons u us)
  obtain r w' where "ex u w = (r, w')"
    by (cases "ex u w")
  with Cons.IH [of w'] show ?case
    by (cases r) simp_all
qed

lemma scrape_leiloes_data:
  "data (fst (scrape_leiloes join max_pages max_imoveis (s, w))) =
     data s @
     extracted extract_imovel_data_leilao
       (cap_urls max_imoveis (fst (get_imoveis_urls join max_pages w)))
       (snd (get_imoveis_urls join max_pages w))"
  by (simp add: scrape_leiloes_def extract_each_data split: prod.splits)

lemma scrape_mercado_data:
  "data (fst (scrape_mercado_tradicional join set_order cidades tipos max_pages max_imoveis
                (s, w))) =
     data s @
     extracted extract_imovel_data_vivareal
       (cap_urls max_imoveis
          (set_order (fst (search_all join max_pages (search_pairs cidades tipos) [] w))))
       (snd (search_all join max_pages (search_pairs cidades tipos) [] w))"
  by (simp add: scrape_mercado_tradicional_def extract_each_data split: prod.splits)

text \<open>
  C8, as the code has it. A harvesting run leaves in the scraper's data list the listings it
  had before followed by the listings of the URLs whose extraction succeeded, in order: a
  URL whose fetch fails adds nothing and stops nothing, so there are at most as many new
  listings as URLs. The method returns nothing, and the object keeps no count of the URLs
  attempted or of the failures.
\<close>

theorem harvest_keeps_partial_results:
  "data (fst (scrape_leiloes join max_pages max_imoveis (s, w))) =
     data s @
     extracted extract_imovel_data_leilao
       (cap_urls max_imoveis (fst (get_imoveis_urls join max_pages w)))
       (snd (get_imoveis_urls join max_pages w)) \<and>
   data (fst (scrape_mercado_tradicional join set_order cidades tipos max_pages max_imoveis
                (t, w))) =
     data t @
     extracted extract_imovel_data_vivareal
       (cap_urls max_imoveis
          (set_order (fst (search_all join max_pages (search_pairs cidades tipos) [] w))))
       (snd (search_all join max_pages (search_pairs cidades tipos) [] w)) \<and>
   length (extracted extract_imovel_data_leilao urls w) \<le> length urls \<and>
   length (extracted extract_imovel_data_vivareal urls w) \<le> length urls"
  by (simp add: scrape_leiloes_data scrape_mercado_data length_extracted)

lemmas site_eval =
  site_a_def site_b_def lot_url_def leilao_base_def leilao_page_url_def str_int_def
  str_nat.simps scrape_leiloes_def get_imoveis_urls_def extract_imovel_data_leilao_def
  fetch_page_def http_get_def add_links_def simple_join_def cap_urls_def lot_page_def
  lot_listing_def safe_extract_def extract_price_leilao_def extract_area_leilao_def
  area_of_text_def sanitize_def is_digit_def py_float_def nat_of_digits_def digit_val_def
  area_match_at_def is_space_def

lemma site_a_run:
  "fst (scrape_leiloes simple_join 1 100 (\<lparr>data = []\<rparr>, site_a)) = \<lparr>data = [lot_listing]\<rparr>"
  by (simp add: site_eval)

lemma site_b_run:
  "fst (scrape_leiloes simple_join 1 100 (\<lparr>data = []\<rparr>, site_b)) = \<lparr>data = [lot_listing]\<rparr>"
  by (simp add: site_eval)

lemma site_a_urls:
  "cap_urls 100 (fst (get_imoveis_urls simple_join 1 site_a)) = [lot_url 1, lot_url 2]"
  by (simp add: site_eval)

lemma site_b_urls:
  "cap_urls 100 (fst (get_imoveis_urls simple_join 1 site_b)) = [lot_url 1]"
  by (simp add: site_eval)

text \<open>
  The claim fails on the code: a run that attempts two URLs and fails on one and a run that
  attempts one URL and fails on none leave the same scraper object, so neither count can be
  read from what a run leaves behind.
\<close>

theorem harvest_result_carries_no_counts:
  "cap_urls 100 (fst (get_imoveis_urls simple_join 1 site_a)) = [lot_url 1, lot_url 2] \<and>
   cap_urls 100 (fst (get_imoveis_urls simple_join 1 site_b)) = [lot_url 1] \<and>
   fst (scrape_leiloes simple_join 1 100 (\<lparr>data = []\<rparr>, site_a)) = \<lparr>data = [lot_listing]\<rparr> \<and>
   fst (scrape_leiloes simple_join 1 100 (\<lparr>data = []\<rparr>, site_b)) = \<lparr>data = [lot_listing]\<rparr>"
  by (simp add: site_a_run site_b_run site_a_urls site_b_urls)

text \<open>
  C10. The extraction loop appends to the instance's data list the listing of every URL
  whose extraction succeeds, in order, and removes nothing: after a run of either scraper
  the list is what the instance held before followed by the listings extracted in the run.
  So a run on an instance that already holds listings leaves them followed by what the same
  run leaves on a fresh instance, and a second run on the same instance leaves the listings
  of the first run followed by those of the second, all of which \<open>save_data\<close> writes.
\<close>

theorem data_accumulates_across_runs:
  "data (fst (extract_each ex urls (s0, w))) = data s0 @ extracted ex urls w \<and>
   data (fst (scrape_leiloes join max_pages max_imoveis (s, w))) =
     data s @
     extracted extract_imovel_data_leilao
       (cap_urls max_imoveis (fst (get_imoveis_urls join max_pages w)))
       (snd (get_imoveis_urls join max_pages w)) \<and>
   data (fst (scrape_mercado_tradicional join set_order cidades tipos max_pages max_imoveis
                (t, w))) =
     data t @
     extracted extract_imovel_data_vivareal
       (cap_urls max_imoveis
          (set_order (fst (search_all join max_pages (search_pairs cidades tipos) [] w))))
       (snd (search_all join max_pages (search_pairs cidades tipos) [] w)) \<and>
   data (fst (scrape_leiloes join max_pages max_imoveis (s, w))) =
     data s @ data (fst (scrape_leiloes join max_pages max_imoveis (\<lparr>data = []\<rparr>, w))) \<and>
   data (fst (scrape_mercado_tradicional join set_order cidades tipos max_pages max_imoveis
                (t, w))) =
     data t @
     data (fst (scrape_mercado_tradicional join set_order cidades tipos max_pages max_imoveis
                  (\<lparr>data = []\<rparr>, w))) \<and>
   save_data (fst (scrape_leiloes join max_pages' max_imoveis'
                     (scrape_leiloes join max_pages max_imoveis (s, w)))) =
     data s @
     data (fst (scrape_leiloes join max_pages max_imoveis (\<lparr>data = []\<rparr>, w))) @
     data (fst (scrape_leiloes join max_pages' max_imoveis'
                  (\<lparr>data = []\<rparr>, snd (scrape_leiloes join max_pages max_imoveis (s, w))))) \<and>
   save_data (fst (scrape_leiloes join max_pages' max_imoveis'
                     (scrape_leiloes join max_pages max_imoveis (s, w)))) =
     data s @
     extracted extract_imovel_data_leilao
       (cap_urls max_imoveis (fst (get_imoveis_urls join max_pages w)))
       (snd (get_imoveis_urls join max_pages w)) @
     extracted extract_imovel_data_leilao
       (cap_urls max_imoveis'
          (fst (get_imoveis_urls join max_pages'
                  (snd (scrape_leiloes join max_pages max_imoveis (s, w))))))
       (snd (get_imoveis_urls join max_pages'
               (snd (scrape_leiloes join max_pages max_imoveis (s, w)))))"
proof -
  obtain s1 w1 where run1: "scrape_leiloes join max_pages max_imoveis (s, w) = (s1, w1)"
    by (cases "scrape_leiloes join max_pages max_imoveis (s, w)")
  have first: "data (fst (scrape_leiloes join mp mi (s', w'))) =
      data s' @ data (fst (scrape_leiloes join mp mi (\<lparr>data = []\<rparr>, w')))" for mp mi s' w'
    by (simp add: scrape_leiloes_data)
  have second: "data (fst (scrape_mercado_tradicional join set_order cidades tipos max_pages
        max_imoveis (t, w))) =
      data t @ data (fst (scrape_mercado_tradicional join set_order cidades tipos max_pages
        max_imoveis (\<lparr>data = []\<rparr>, w)))"
    by (simp add: scrape_mercado_data)
  from scrape_leiloes_data [of join max_pages max_imoveis s w] run1
  have s1: "data s1 =
      data s @
      extracted extract_imovel_data_leilao
        (cap_urls max_imoveis (fst (get_imoveis_urls join max_pages w)))
        (snd (get_imoveis_urls join max_pages w))"
    by simp
  from scrape_leiloes_data [of join max_pages' max_imoveis' s1 w1] run1 s1
  have both: "save_data (fst (scrape_leiloes join max_pages' max_imoveis'
                     (scrape_leiloes join max_pages max_imoveis (s, w)))) =
     data s @
     extracted extract_imovel_data_leilao
       (cap_urls max_imoveis (fst (get_imoveis_urls join max_pages w)))
       (snd (get_imoveis_urls join max_pages w)) @
     extracted extract_imovel_data_leilao
       (cap_urls max_imoveis'
          (fst (get_imoveis_urls join max_pages'
                  (snd (scrape_leiloes join max_pages max_imoveis (s, w))))))
       (snd (get_imoveis_urls join max_pages'
               (snd (scrape_leiloes join max_pages max_imoveis (s, w)))))"
    by (simp add: save_data_def)
  from first [of max_pages max_imoveis s w] run1
  have "data s1 = data s @ data (fst (scrape_leiloes join max_pages max_imoveis (\<lparr>data = []\<rparr>, w)))"
    by simp
  with first [of max_pages' max_imoveis' s1 w1] run1
  have fresh: "save_data (fst (scrape_leiloes join max_pages' max_imoveis'
                     (scrape_leiloes join max_pages max_imoveis (s, w)))) =
     data s @
     data (fst (scrape_leiloes join max_pages max_imoveis (\<lparr>data = []\<rparr>, w))) @
     data (fst (scrape_leiloes join max_pages' max_imoveis'
                  (\<lparr>data = []\<rparr>, snd (scrape_leiloes join max_pages max_imoveis (s, w)))))"
    by (simp add: save_data_def)
  from extract_each_data [of ex urls s0 w]
    scrape_leiloes_data [of join max_pages max_imoveis s w]
    scrape_mercado_data [of join set_order cidades tipos max_pages max_imoveis t w]
    first [of max_pages max_imoveis s w] second fresh both
  show ?thesis
    by blast
qed

lemma site_b_extracted:
  "extracted extract_imovel_data_leilao
     (cap_urls 100 (fst (get_imoveis_urls simple_join 1 site_b)))
     (snd (get_imoveis_urls simple_join 1 site_b)) = [lot_listing]"
  by (simp add: site_eval)

lemma site_b_rerun_extracted:
  "extracted extract_imovel_data_leilao
     (cap_urls 100
        (fst (get_imoveis_urls simple_join 1
                (snd (scrape_leiloes simple_join 1 100 (\<lparr>data = []\<rparr>, site_b))))))
     (snd (get_imoveis_urls simple_join 1
             (snd (scrape_leiloes simple_join 1 100 (\<lparr>data = []\<rparr>, site_b))))) =
     [lot_listing]"
  by (simp add: site_eval)

theorem two_runs_repeat_the_listing:
  "data (fst (scrape_leiloes simple_join 1 100 (\<lparr>data = []\<rparr>, site_b))) = [lot_listing] \<and>
   data (fst (scrape_leiloes simple_join 1 100 (\<lparr>data = [lot_listing]\<rparr>, site_b))) =
     [lot_listing, lot_listing] \<and>
   save_data (fst (scrape_leiloes simple_join 1 100
                     (scrape_leiloes simple_join 1 100 (\<lparr>data = []\<rparr>, site_b)))) =
     [lot_listing, lot_listing]"
proof -
  let ?new = "extracted extract_imovel_data_leilao
     (cap_urls 100 (fst (get_imoveis_urls simple_join 1 site_b)))
     (snd (get_imoveis_urls simple_join 1 site_b))"
  let ?again = "extracted extract_imovel_data_leilao
     (cap_urls 100
        (fst (get_imoveis_urls simple_join 1
                (snd (scrape_leiloes simple_join 1 100 (\<lparr>data = []\<rparr>, site_b))))))
     (snd (get_imoveis_urls simple_join 1
             (snd (scrape_leiloes simple_join 1 100 (\<lparr>data = []\<rparr>, site_b)))))"
  from data_accumulates_across_runs
      [of extract_imovel_data_leilao "[]" "\<lparr>data = []\<rparr>" site_b simple_join 1 100
          "\<lparr>data = []\<rparr>" id "[]" "[]" "\<lparr>data = []\<rparr>" 1 100]
  have once: "data (fst (scrape_leiloes simple_join 1 100 (\<lparr>data = []\<rparr>, site_b))) =
      data \<lparr>data = []\<rparr> @ ?new"
    and twice: "save_data (fst (scrape_leiloes simple_join 1 100
        (scrape_leiloes simple_join 1 100 (\<lparr>data = []\<rparr>, site_b)))) =
      data \<lparr>data = []\<rparr> @ ?new @ ?again"
    by blast+
  from data_accumulates_across_runs
      [of extract_imovel_data_leilao "[]" "\<lparr>data = []\<rparr>" site_b simple_join 1 100
          "\<lparr>data = [lot_listing]\<rparr>" id "[]" "[]" "\<lparr>data = []\<rparr>" 1 100]
  have held: "data (fst (scrape_leiloes simple_join 1 100 (\<lparr>data = [lot_listing]\<rparr>, site_b))) =
      data \<lparr>data = [lot_listing]\<rparr> @ ?new"
    by blast
  show ?thesis
    unfolding once twice held by (simp add: site_b_extracted site_b_rerun_extracted)
qed

end
